theory Spec2Isabelle
  imports
    Main
    "HOL-Library.Sublist"
    "HOL-Library.Char_ord"
    "HOL-Library.List_Lexorder"
    "HOL-Library.Multiset"
begin

section \<open>JavaScript values used by the sync service\<close>

text \<open>
  The service is \<^verbatim>\<open>backend/src/api/promidata-sync/services/promidata-sync.ts\<close>.
  A JavaScript string is modelled as a \<^typ>\<open>string\<close> whose characters are UTF-16 code
  units below 256 (the Latin-1 range); a property that may be missing, \<^verbatim>\<open>null\<close> or
  \<^verbatim>\<open>undefined\<close> is an \<^typ>\<open>'a option\<close>. Vendor codes (SKU, colour code,
  size) are strings, as in the feed.
\<close>

text \<open>Truthiness of an optional string: present and not the empty string.\<close>

definition truthy :: "string option \<Rightarrow> bool" where
  "truthy v = (case v of None \<Rightarrow> False | Some s \<Rightarrow> s \<noteq> [])"

text \<open>\<^verbatim>\<open>a || b\<close> on optional strings.\<close>

definition orElse :: "string option \<Rightarrow> string option \<Rightarrow> string option" where
  "orElse a b = (if truthy a then a else b)"

text \<open>\<^verbatim>\<open>v || ""\<close>\<close>

definition orEmpty :: "string option \<Rightarrow> string" where
  "orEmpty v = (case v of None \<Rightarrow> [] | Some s \<Rightarrow> s)"

text \<open>\<^verbatim>\<open>s.includes(pat)\<close> and \<^verbatim>\<open>s.startsWith(pat)\<close>.\<close>

definition includesStr :: "string \<Rightarrow> string \<Rightarrow> bool" where
  "includesStr s pat = sublist pat s"

definition startsWith :: "string \<Rightarrow> string \<Rightarrow> bool" where
  "startsWith s pat = prefix pat s"

definition isDigit :: "char \<Rightarrow> bool" where
  "isDigit c = (let n = (of_char c :: nat) in 48 \<le> n \<and> n \<le> 57)"

definition isAlnum :: "char \<Rightarrow> bool" where
  "isAlnum c = (let n = (of_char c :: nat) in
     (48 \<le> n \<and> n \<le> 57) \<or> (65 \<le> n \<and> n \<le> 90) \<or> (97 \<le> n \<and> n \<le> 122))"

text \<open>\<^verbatim>\<open>toLowerCase()\<close> on Latin-1 code units.\<close>

definition toLowerChar :: "char \<Rightarrow> char" where
  "toLowerChar c = (let n = (of_char c :: nat) in
     if (65 \<le> n \<and> n \<le> 90) \<or> (192 \<le> n \<and> n \<le> 222 \<and> n \<noteq> 215)
     then char_of (n + 32) else c)"

definition toLowerCase :: "string \<Rightarrow> string" where
  "toLowerCase s = map toLowerChar s"

text \<open>\<^verbatim>\<open>s.split(sep)\<close> for a one-character separator.\<close>

fun splitOn :: "char \<Rightarrow> string \<Rightarrow> string list" where
  "splitOn sep [] = [[]]"
| "splitOn sep (c # cs) =
     (if c = sep then [] # splitOn sep cs
      else (case splitOn sep cs of
              [] \<Rightarrow> [[c]]
            | p # ps \<Rightarrow> (c # p) # ps))"

text \<open>First truthy value of \<open>f\<close> along a list of keys: a \<^verbatim>\<open>for\<close> loop that
  leaves at the first hit.\<close>

fun firstTruthy :: "('k \<Rightarrow> string option) \<Rightarrow> 'k list \<Rightarrow> string option" where
  "firstTruthy f [] = None"
| "firstTruthy f (k # ks) = (if truthy (f k) then f k else firstTruthy f ks)"

section \<open>The product document\<close>

text \<open>
  \<^verbatim>\<open>ConfigurationNameTranslated\<close> is read as a string by
  \<^verbatim>\<open>extractColorCodeForGrouping\<close> and as an object indexed by language by
  \<^verbatim>\<open>parseConfigurationFields\<close>; both shapes are kept.
\<close>

datatype name_translated =
    NTAbsent
  | NTString string
  | NTObject "(string \<times> string) list"

record config_field =
  ConfigurationName :: "string option"
  ConfigurationNameTranslated :: name_translated
  ConfigurationValue :: "string option"

record unstructured_info =
  SupplierColorCode :: "string option"

record image_ref =
  Url :: "string option"
  FileName :: "string option"

record lang_details =
  ld_Sku :: "string option"
  ld_Name :: "string option"
  ld_UnstructuredInformation :: "unstructured_info option"
  ld_ConfigurationFields :: "config_field list option"
  ld_Image :: "image_ref option"
  ld_MediaGalleryImages :: "image_ref list option"
  ld_InformationFiles :: "image_ref list option"

record nonlang_details =
  nl_Sku :: "string option"
  Brand :: "string option"
  Category :: "string option"

text \<open>\<^verbatim>\<open>ProductDetails\<close> is an object keyed by language; the association list
  keeps the insertion order that \<^verbatim>\<open>Object.keys\<close> returns.\<close>

record child_product =
  Sku :: "string option"
  SupplierSku :: "string option"
  A_number :: "string option"
  UnstructuredInformation :: "unstructured_info option"
  NonLanguageDependedProductDetails :: "nonlang_details option"
  ProductDetails :: "(string \<times> lang_details) list option"

definition languagePriority :: "string list" where
  "languagePriority = [''en'', ''nl'']"

text \<open>\<^verbatim>\<open>childProd.ProductDetails?.[lang]\<close>\<close>

definition langDetails :: "child_product \<Rightarrow> string \<Rightarrow> lang_details option" where
  "langDetails c lang = (case ProductDetails c of None \<Rightarrow> None | Some pd \<Rightarrow> map_of pd lang)"

text \<open>\<^verbatim>\<open>Object.keys(ProductDetails).filter(lang => !languagePriority.includes(lang))\<close>\<close>

definition remainingLangs :: "(string \<times> lang_details) list \<Rightarrow> string list" where
  "remainingLangs pd = filter (\<lambda>lang. lang \<notin> set languagePriority) (map fst pd)"

definition uiColorCode :: "unstructured_info option \<Rightarrow> string option" where
  "uiColorCode u = (case u of None \<Rightarrow> None | Some i \<Rightarrow> SupplierColorCode i)"

text \<open>\<^verbatim>\<open>ProductDetails[lang]?.UnstructuredInformation?.SupplierColorCode\<close>\<close>

definition langColorCode :: "child_product \<Rightarrow> string \<Rightarrow> string option" where
  "langColorCode c lang =
     (case langDetails c lang of None \<Rightarrow> None
      | Some d \<Rightarrow> uiColorCode (ld_UnstructuredInformation d))"

text \<open>\<^verbatim>\<open>ProductDetails[lang]?.ConfigurationFields\<close>\<close>

definition langConfigFields :: "child_product \<Rightarrow> string \<Rightarrow> config_field list option" where
  "langConfigFields c lang =
     (case langDetails c lang of None \<Rightarrow> None | Some d \<Rightarrow> ld_ConfigurationFields d)"

section \<open>Field extraction\<close>

subsection \<open>\<^verbatim>\<open>parseConfigurationFields\<close>\<close>

definition isColorName :: "string \<Rightarrow> bool" where
  "isColorName n = (includesStr n ''color'' \<or> includesStr n ''kleur'' \<or> includesStr n ''couleur'')"

definition isSizeName :: "string \<Rightarrow> bool" where
  "isSizeName n = (includesStr n ''size'' \<or> includesStr n ''afmeting'' \<or> includesStr n ''taille''
     \<or> includesStr n ''maat'')"

text \<open>\<^verbatim>\<open>field.ConfigurationNameTranslated?.[lowerCaseLanguage]?.toLowerCase()\<close>:
  indexing a string with a language code yields \<^verbatim>\<open>undefined\<close>.\<close>

definition configNameTranslated :: "config_field \<Rightarrow> string \<Rightarrow> string option" where
  "configNameTranslated f lang =
     (case ConfigurationNameTranslated f of
        NTAbsent \<Rightarrow> None
      | NTString s \<Rightarrow> None
      | NTObject m \<Rightarrow> map_option toLowerCase (map_of m (toLowerCase lang)))"

definition nameSatisfies :: "(string \<Rightarrow> bool) \<Rightarrow> string option \<Rightarrow> bool" where
  "nameSatisfies P n = (case n of None \<Rightarrow> False | Some s \<Rightarrow> s \<noteq> [] \<and> P s)"

text \<open>The loop body and its \<^verbatim>\<open>break\<close>: the state is the pair
  of \<^verbatim>\<open>color\<close> and \<^verbatim>\<open>size\<close>.\<close>

fun parseLoop :: "string \<Rightarrow> config_field list \<Rightarrow> string option \<times> string option
    \<Rightarrow> string option \<times> string option" where
  "parseLoop lang [] (colour, sz) = (colour, sz)"
| "parseLoop lang (f # fs) (colour, sz) =
     (let configName = map_option toLowerCase (ConfigurationName f);
          translated = configNameTranslated f lang;
          configValue = ConfigurationValue f
      in if \<not> truthy configValue then parseLoop lang fs (colour, sz)
         else
           (let (colour', sz') =
                  (if nameSatisfies isColorName configName \<or> nameSatisfies isColorName translated
                   then (configValue, sz)
                   else if nameSatisfies isSizeName configName \<or> nameSatisfies isSizeName translated
                   then (colour, configValue)
                   else (colour, sz))
            in if truthy colour' \<and> truthy sz' then (colour', sz')
               else parseLoop lang fs (colour', sz')))"

definition parseConfigurationFields :: "config_field list option \<Rightarrow> string
    \<Rightarrow> string option \<times> string option" where
  "parseConfigurationFields configurationFields language =
     (case configurationFields of
        None \<Rightarrow> (None, None)
      | Some fs \<Rightarrow> parseLoop language fs (None, None))"

subsection \<open>\<^verbatim>\<open>extractColorCodeForGrouping\<close>\<close>

text \<open>\<^verbatim>\<open>/color|kleur|couleur|colour/i.test(s)\<close>: only ASCII letters fold onto the
  pattern's letters.\<close>

definition colorRegexTest :: "string \<Rightarrow> bool" where
  "colorRegexTest s = (let l = toLowerCase s in
     includesStr l ''color'' \<or> includesStr l ''kleur'' \<or> includesStr l ''couleur'' \<or> includesStr l ''colour'')"

text \<open>\<^verbatim>\<open>f.ConfigurationNameTranslated || f.ConfigurationName || ''\<close>, converted to a
  string by \<^verbatim>\<open>test\<close>; an object prints as \<^verbatim>\<open>[object Object]\<close>.\<close>

definition groupingFieldName :: "config_field \<Rightarrow> string" where
  "groupingFieldName f =
     (case ConfigurationNameTranslated f of
        NTObject m \<Rightarrow> ''[object Object]''
      | NTString s \<Rightarrow> (if s \<noteq> [] then s
                       else (case ConfigurationName f of None \<Rightarrow> [] | Some n \<Rightarrow> n))
      | NTAbsent \<Rightarrow> (case ConfigurationName f of None \<Rightarrow> [] | Some n \<Rightarrow> n))"

text \<open>\<^verbatim>\<open>sku.match(/^A461-\d+-(\d+)-\d+$/)\<close>: the three numeric segments exclude the
  separator, so the match is the split at \<^verbatim>\<open>-\<close>.\<close>

definition digits1 :: "string \<Rightarrow> bool" where
  "digits1 s = (s \<noteq> [] \<and> list_all isDigit s)"

definition matchA461 :: "string \<Rightarrow> string option" where
  "matchA461 sku =
     (case splitOn CHR ''-'' sku of
        [a, b, c, d] \<Rightarrow>
          (if a = ''A461'' \<and> digits1 b \<and> digits1 c \<and> digits1 d then Some c else None)
      | _ \<Rightarrow> None)"

text \<open>The colour read from one language's configuration fields: \<^verbatim>\<open>find\<close> takes the
  first field whose name matches, and only its value counts.\<close>

definition configColorFor :: "child_product \<Rightarrow> string \<Rightarrow> string option" where
  "configColorFor c lang =
     (case langConfigFields c lang of
        None \<Rightarrow> None
      | Some fs \<Rightarrow>
          (case find (\<lambda>f. colorRegexTest (groupingFieldName f)) fs of
             None \<Rightarrow> None
           | Some f \<Rightarrow> ConfigurationValue f))"

text \<open>The colour code that the function finds: the supplier colour code, else for a parent
  SKU of supplier A461 the middle segment of the child SKU, else the colour of the
  configuration fields in English or Dutch.\<close>

definition colorCodeFound :: "child_product \<Rightarrow> string \<Rightarrow> string option" where
  "colorCodeFound childProd parentProductSku =
     (let supplierColorCode =
            orElse (uiColorCode (UnstructuredInformation childProd)) (langColorCode childProd ''en'')
      in if truthy supplierColorCode then supplierColorCode
         else
           (case (if parentProductSku \<noteq> [] \<and> startsWith parentProductSku ''A461''
                  then matchA461 (orEmpty (Sku childProd))
                  else None) of
              Some code \<Rightarrow> Some code
            | None \<Rightarrow>
                if ProductDetails childProd \<noteq> None
                then firstTruthy (configColorFor childProd) [''en'', ''nl'']
                else None))"

definition extractColorCodeForGrouping :: "child_product \<Rightarrow> string \<Rightarrow> string" where
  "extractColorCodeForGrouping childProd parentProductSku =
     (case colorCodeFound childProd parentProductSku of
        Some code \<Rightarrow> code
      | None \<Rightarrow> ''unknown'')"

subsection \<open>\<^verbatim>\<open>extractVariantSku\<close>\<close>

text \<open>The supplier colour code by language priority, as both
  \<^verbatim>\<open>extractVariantSku\<close> and \<^verbatim>\<open>createOrUpdateProductVariant\<close> compute it.\<close>

definition supplierColorCodeOf :: "child_product \<Rightarrow> string option" where
  "supplierColorCodeOf c =
     (let supplierColorCode = uiColorCode (UnstructuredInformation c)
      in case ProductDetails c of
           None \<Rightarrow> supplierColorCode
         | Some pd \<Rightarrow>
             if truthy supplierColorCode then supplierColorCode
             else (case firstTruthy (langColorCode c) languagePriority of
                     Some code \<Rightarrow> Some code
                   | None \<Rightarrow>
                       (case firstTruthy (langColorCode c) (remainingLangs pd) of
                          Some code \<Rightarrow> Some code
                        | None \<Rightarrow> supplierColorCode)))"

text \<open>\<^verbatim>\<open>parsedConfig.size.replace(/[^a-zA-Z0-9]/g, '')\<close> on the English
  configuration fields.\<close>

definition sizeCodeOf :: "child_product \<Rightarrow> string" where
  "sizeCodeOf c =
     (case langConfigFields c ''en'' of
        None \<Rightarrow> []
      | Some fs \<Rightarrow>
          (case snd (parseConfigurationFields (Some fs) ''en'') of
             None \<Rightarrow> []
           | Some sz \<Rightarrow> filter isAlnum sz))"

text \<open>The first truthy \<^verbatim>\<open>ProductDetails[langKey]?.Sku\<close> along \<^verbatim>\<open>Object.keys\<close>, and
  \<^verbatim>\<open>NonLanguageDependedProductDetails?.Sku\<close>.\<close>

definition firstLangSku :: "child_product \<Rightarrow> string option" where
  "firstLangSku c =
     (case ProductDetails c of
        None \<Rightarrow> None
      | Some pd \<Rightarrow>
          firstTruthy (\<lambda>langKey. case map_of pd langKey of None \<Rightarrow> None | Some d \<Rightarrow> ld_Sku d)
            (map fst pd))"

definition nonLangSku :: "child_product \<Rightarrow> string option" where
  "nonLangSku c =
     (case NonLanguageDependedProductDetails c of None \<Rightarrow> None | Some n \<Rightarrow> nl_Sku n)"

text \<open>The SKU stated in the record itself, in the order the function tries the places.\<close>

definition explicitSku :: "child_product \<Rightarrow> string \<Rightarrow> string option" where
  "explicitSku c parentSku =
     (if truthy (firstLangSku c) then firstLangSku c
      else if truthy (Sku c) then Sku c
      else if truthy (SupplierSku c) then SupplierSku c
      else if truthy (nonLangSku c) then nonLangSku c
      else if truthy (A_number c) then Some (parentSku @ ''-'' @ orEmpty (A_number c))
      else None)"

definition extractVariantSku :: "child_product \<Rightarrow> string \<Rightarrow> string option" where
  "extractVariantSku childProductData parentSku =
     (case explicitSku childProductData parentSku of
        Some s \<Rightarrow> Some s
      | None \<Rightarrow>
          (let supplierColorCode = supplierColorCodeOf childProductData;
               sizeCode = sizeCodeOf childProductData
           in if parentSku \<noteq> [] \<and> truthy supplierColorCode \<and> sizeCode \<noteq> []
              then Some (parentSku @ ''-'' @ orEmpty supplierColorCode @ ''-'' @ sizeCode)
              else if parentSku \<noteq> [] \<and> truthy supplierColorCode
              then Some (parentSku @ ''-'' @ orEmpty supplierColorCode)
              else None))"

section \<open>Variant grouping\<close>

subsection \<open>\<^verbatim>\<open>extractSizesForColor\<close>\<close>

text \<open>The size of one child: the priority languages first, then the remaining ones; the
  first language whose configuration fields give a size decides.\<close>

definition langSize :: "child_product \<Rightarrow> string \<Rightarrow> string option" where
  "langSize c lang =
     (case langConfigFields c lang of
        None \<Rightarrow> None
      | Some fs \<Rightarrow> snd (parseConfigurationFields (Some fs) lang))"

definition extractedSize :: "child_product \<Rightarrow> string option" where
  "extractedSize childProduct =
     (case ProductDetails childProduct of
        None \<Rightarrow> None
      | Some pd \<Rightarrow>
          (case firstTruthy (langSize childProduct) languagePriority of
             Some s \<Rightarrow> Some s
           | None \<Rightarrow> firstTruthy (langSize childProduct) (remainingLangs pd)))"

text \<open>A JavaScript \<^verbatim>\<open>Set\<close> of strings, in insertion order.\<close>

definition setAdd :: "string list \<Rightarrow> string \<Rightarrow> string list" where
  "setAdd sizes s = (if s \<in> set sizes then sizes else sizes @ [s])"

definition sizesStep :: "string \<Rightarrow> string \<Rightarrow> string list \<Rightarrow> child_product \<Rightarrow> string list" where
  "sizesStep supplierColorCode parentProductSku sizes childProduct =
     (if extractColorCodeForGrouping childProduct parentProductSku = supplierColorCode
      then (case extractedSize childProduct of
              None \<Rightarrow> sizes
            | Some s \<Rightarrow> if s \<noteq> [] then setAdd sizes s else sizes)
      else sizes)"

text \<open>\<^verbatim>\<open>Array.from(sizes).sort()\<close>: the default order compares code units, which
  is the lexicographic order of \<^typ>\<open>string\<close>.\<close>

definition extractSizesForColor :: "child_product list \<Rightarrow> string \<Rightarrow> string \<Rightarrow> string list" where
  "extractSizesForColor childProducts supplierColorCode parentProductSku =
     sort (foldl (sizesStep supplierColorCode parentProductSku) [] childProducts)"

subsection \<open>\<^verbatim>\<open>lodash.groupBy\<close> and the order of \<^verbatim>\<open>for ... in\<close>\<close>

text \<open>\<^verbatim>\<open>groupBy\<close> appends each element to the array stored under its key; a new key is
  added behind the keys already present.\<close>

fun groupByAdd :: "(string \<times> 'a list) list \<Rightarrow> string \<Rightarrow> 'a \<Rightarrow> (string \<times> 'a list) list" where
  "groupByAdd [] k v = [(k, [v])]"
| "groupByAdd ((k', vs) # groups) k v =
     (if k' = k then (k', vs @ [v]) # groups else (k', vs) # groupByAdd groups k v)"

definition groupBy :: "('a \<Rightarrow> string) \<Rightarrow> 'a list \<Rightarrow> (string \<times> 'a list) list" where
  "groupBy iteratee collection = foldl (\<lambda>groups v. groupByAdd groups (iteratee v) v) [] collection"

definition natOfDigits :: "string \<Rightarrow> nat" where
  "natOfDigits s = foldl (\<lambda>n c. 10 * n + ((of_char c :: nat) - 48)) 0 s"

text \<open>An array index is the canonical decimal form of an integer below \<open>2\<^sup>3\<^sup>2 - 1\<close>.
  \<^verbatim>\<open>for ... in\<close> visits the array-index keys in ascending numeric order first and the other
  keys in insertion order after them.\<close>

definition isArrayIndex :: "string \<Rightarrow> bool" where
  "isArrayIndex k =
     (k \<noteq> [] \<and> list_all isDigit k \<and> (k = ''0'' \<or> hd k \<noteq> CHR ''0'') \<and> natOfDigits k < 4294967295)"

definition forInOrder :: "(string \<times> 'a) list \<Rightarrow> (string \<times> 'a) list" where
  "forInOrder obj =
     sort_key (\<lambda>e. natOfDigits (fst e)) (filter (\<lambda>e. isArrayIndex (fst e)) obj)
       @ filter (\<lambda>e. \<not> isArrayIndex (fst e)) obj"

text \<open>The object \<^verbatim>\<open>variantsByColorCode\<close> of \<^verbatim>\<open>syncSupplier\<close>, in the order in which
  its loop visits the colours.\<close>

definition variantsByColorCode :: "child_product list \<Rightarrow> string \<Rightarrow> (string \<times> child_product list) list" where
  "variantsByColorCode childProducts productCode =
     forInOrder (groupBy (\<lambda>childProd. extractColorCodeForGrouping childProd productCode) childProducts)"

section \<open>The content store\<close>

text \<open>
  Entity data is a JavaScript object: an association list from property names to values.
  The store is the narrow interface of the entity service that the sync service calls
  (\<^verbatim>\<open>findMany\<close>, \<^verbatim>\<open>create\<close>, \<^verbatim>\<open>update\<close>); it keeps a log of the writes it
  was asked to do. Its calls succeed, except the registration of an upload, whose outcome
  comes from the environment.
\<close>

datatype jsv =
    JNull
  | JBool bool
  | JNum int
  | JStr string
  | JArr "jsv list"
  | JObj "(string \<times> jsv) list"

type_synonym obj = "(string \<times> jsv) list"

definition strOrNull :: "string option \<Rightarrow> jsv" where
  "strOrNull v = (case v of None \<Rightarrow> JNull | Some s \<Rightarrow> JStr s)"

text \<open>\<^verbatim>\<open>lodash.omit(object, paths)\<close>\<close>

definition omit :: "obj \<Rightarrow> string list \<Rightarrow> obj" where
  "omit object paths = filter (\<lambda>kv. fst kv \<notin> set paths) object"

text \<open>\<^verbatim>\<open>lodash.isEqual\<close> on two plain objects: the same number of own keys, and every key
  of the first is a key of the second with an equal value. The values of the fields modelled
  here are scalars and arrays of scalars, whose deep equality is equality.\<close>

definition isEqual :: "obj \<Rightarrow> obj \<Rightarrow> bool" where
  "isEqual object other =
     (length object = length other \<and> list_all (\<lambda>kv. map_of other (fst kv) = Some (snd kv)) object)"

text \<open>Assignment of one property, and of all properties of \<open>source\<close>.\<close>

fun setProp :: "obj \<Rightarrow> string \<Rightarrow> jsv \<Rightarrow> obj" where
  "setProp [] k v = [(k, v)]"
| "setProp ((k', v') # object) k v =
     (if k' = k then (k, v) # object else (k', v') # setProp object k v)"

definition assign :: "obj \<Rightarrow> obj \<Rightarrow> obj" where
  "assign target source = foldl (\<lambda>object kv. setProp object (fst kv) (snd kv)) target source"

datatype table = ParentProductT | ProductT | ProductVariantT | CategoryT | SupplierT | FileT

type_synonym row = "nat \<times> obj"

datatype store_write = Created table nat | Updated table nat

text \<open>The state that a run reads and changes: the tables of the store, and the field
  \<^verbatim>\<open>_a73EmbroiderySizes\<close> of the service object, which is \<^verbatim>\<open>undefined\<close> at first.\<close>

record state =
  rows :: "table \<Rightarrow> row list"
  nextId :: nat
  writes :: "store_write list"
  a73EmbroiderySizes :: "(string \<times> string list) list option"

definition findMany :: "state \<Rightarrow> table \<Rightarrow> (obj \<Rightarrow> bool) \<Rightarrow> row list" where
  "findMany st t filters = filter (\<lambda>r. filters (snd r)) (rows st t)"

definition fieldIs :: "string \<Rightarrow> jsv \<Rightarrow> obj \<Rightarrow> bool" where
  "fieldIs k v object = (map_of object k = Some v)"

definition createEntity :: "state \<Rightarrow> table \<Rightarrow> obj \<Rightarrow> row \<times> state" where
  "createEntity st t data =
     ((nextId st, data),
      st\<lparr>rows := (rows st)(t := rows st t @ [(nextId st, data)]),
         nextId := Suc (nextId st),
         writes := writes st @ [Created t (nextId st)]\<rparr>)"

text \<open>An update merges the given properties into the row. The callers pass the id of a row
  they have just read; for an id that is not in the table nothing is written.\<close>

definition updateEntity :: "state \<Rightarrow> table \<Rightarrow> nat \<Rightarrow> obj \<Rightarrow> row \<times> state" where
  "updateEntity st t i data =
     (case find (\<lambda>r. fst r = i) (rows st t) of
        None \<Rightarrow> ((i, data), st)
      | Some r \<Rightarrow>
          ((i, assign (snd r) data),
           st\<lparr>rows := (rows st)(t := map (\<lambda>x. if fst x = i then (i, assign (snd r) data) else x)
                                      (rows st t)),
              writes := writes st @ [Updated t i]\<rparr>))"

section \<open>The environment of a run\<close>

datatype error = Error string

datatype 'a response = NotOk string | Ok 'a

record supplier =
  sup_id :: nat
  sup_code :: string

text \<open>The parent document. \<^verbatim>\<open>otherCodes\<close> holds the properties that
  \<^verbatim>\<open>extractProductCode\<close> tries last, in its order (\<^verbatim>\<open>articlenumber\<close>,
  \<^verbatim>\<open>sku_supplier\<close>, \<^verbatim>\<open>SKU\<close>, \<^verbatim>\<open>Code\<close>, \<^verbatim>\<open>code\<close>, \<^verbatim>\<open>id\<close>, \<^verbatim>\<open>sku\<close>,
  \<^verbatim>\<open>ProductCode\<close>, \<^verbatim>\<open>ItemCode\<close>, \<^verbatim>\<open>ArtNr\<close>); \<^verbatim>\<open>SupplierNameToShow\<close> is the
  property of that name in \<^verbatim>\<open>UnstructuredInformation\<close>.\<close>

record product_doc =
  pd_Sku :: "string option"
  pd_SupplierSku :: "string option"
  ANumber :: "string option"
  SupplierNameToShow :: "string option"
  pd_NonLanguageDependedProductDetails :: "nonlang_details option"
  ChildProducts :: "child_product list option"
  otherCodes :: "string option list"

text \<open>What the outside world answers: the manifest \<^verbatim>\<open>Import.txt\<close>, the product documents by
  URL, the image downloads by URL (the \<^verbatim>\<open>content-type\<close> header), whether the object storage
  accepts a key, whether the \<open>n\<close>-th attempt to register a file succeeds, and the clock.\<close>

record env =
  manifest :: "string response"
  documents :: "string \<Rightarrow> product_doc response"
  download :: "string \<Rightarrow> string option response"
  r2Put :: "string \<Rightarrow> bool"
  fileCreate :: "string \<Rightarrow> nat \<Rightarrow> bool"
  r2PublicUrl :: string
  now :: string

section \<open>Manifest client\<close>

abbreviation newline :: char where
  "newline \<equiv> CHR 0x0A"

text \<open>White space of \<^verbatim>\<open>\s\<close> and \<^verbatim>\<open>trim()\<close> among the Latin-1 code units.\<close>

definition isSpace :: "char \<Rightarrow> bool" where
  "isSpace c = (let n = (of_char c :: nat) in (9 \<le> n \<and> n \<le> 13) \<or> n = 32 \<or> n = 160)"

definition trim :: "string \<Rightarrow> string" where
  "trim s = rev (dropWhile isSpace (rev (dropWhile isSpace s)))"

text \<open>\<^verbatim>\<open>s.replace(pat, rep)\<close> with a string pattern replaces the first occurrence.\<close>

fun replaceFirst :: "string \<Rightarrow> string \<Rightarrow> string \<Rightarrow> string" where
  "replaceFirst pat rep [] = (if pat = [] then rep else [])"
| "replaceFirst pat rep (c # cs) =
     (if prefix pat (c # cs) then rep @ drop (length pat) (c # cs)
      else c # replaceFirst pat rep cs)"

text \<open>\<^verbatim>\<open>urlParts[urlParts.length - 1].replace(".json", "")\<close>\<close>

definition fileNameCode :: "string \<Rightarrow> string" where
  "fileNameCode u = replaceFirst ''.json'' [] (last (splitOn CHR ''/'' u))"

record manifest_entry =
  url :: string
  hash :: string

definition parseLine :: "string \<Rightarrow> string \<Rightarrow> manifest_entry list" where
  "parseLine supplierCode line =
     (if includesStr line ''CAT.csv'' then []
      else if includesStr line ''|'' \<and> includesStr line (''/'' @ supplierCode @ ''/'')
      then (case splitOn CHR ''|'' line of
              fullUrlPart # h # _ \<Rightarrow>
                (if fullUrlPart \<noteq> [] \<and> h \<noteq> []
                 then [\<lparr>url = trim fullUrlPart, hash = trim h\<rparr>] else [])
            | _ \<Rightarrow> [])
      else [])"

text \<open>The body of the \<^verbatim>\<open>try\<close> block up to the text of the manifest.\<close>

definition fetchImportTxt :: "env \<Rightarrow> error + string" where
  "fetchImportTxt e =
     (case manifest e of
        NotOk statusText \<Rightarrow> Inl (Error (''Failed to fetch Import.txt: '' @ statusText))
      | Ok text \<Rightarrow> Inr text)"

text \<open>The \<^verbatim>\<open>catch\<close> block logs the error and returns the empty array.\<close>

definition parseProductUrlsWithHashes :: "env \<Rightarrow> string \<Rightarrow> error + manifest_entry list" where
  "parseProductUrlsWithHashes e supplierCode =
     (case fetchImportTxt e of
        Inl err \<Rightarrow> Inr []
      | Inr text \<Rightarrow>
          Inr (concat (map (parseLine supplierCode)
                 (filter (\<lambda>line. trim line \<noteq> []) (splitOn newline text)))))"

section \<open>Image ingestion\<close>

text \<open>\<^verbatim>\<open>retry(fn, retries, delay)\<close>: \<open>fn\<close> is given the number of the attempt; the result
  carries the delays waited for.\<close>

fun retry :: "(nat \<Rightarrow> error + 'a) \<Rightarrow> nat \<Rightarrow> nat \<Rightarrow> nat \<Rightarrow> nat list \<times> (error + 'a)" where
  "retry fn 0 delay attempt =
     (case fn attempt of Inr v \<Rightarrow> ([], Inr v) | Inl err \<Rightarrow> ([], Inl err))"
| "retry fn (Suc retries) delay attempt =
     (case fn attempt of
        Inr v \<Rightarrow> ([], Inr v)
      | Inl err \<Rightarrow>
          (case retry fn retries (delay * 2) (Suc attempt) of
             (delays, r) \<Rightarrow> (delay # delays, r)))"

definition imageExtension :: "string \<Rightarrow> string \<Rightarrow> string" where
  "imageExtension contentType imageUrl =
     (if includesStr contentType ''png'' then ''png''
      else if includesStr contentType ''gif'' then ''gif''
      else if includesStr contentType ''webp'' then ''webp''
      else if includesStr imageUrl ''.png'' then ''png''
      else if includesStr imageUrl ''.gif'' then ''gif''
      else if includesStr imageUrl ''.webp'' then ''webp''
      else ''jpg'')"

text \<open>The media record; the properties of \<^verbatim>\<open>provider_metadata\<close> are kept beside the others,
  the checksum and the size in bytes are left out.\<close>

definition fileData :: "env \<Rightarrow> string \<Rightarrow> string \<Rightarrow> string \<Rightarrow> string \<Rightarrow> string option \<Rightarrow> obj" where
  "fileData e cleanFileName extension contentType imageUrl originalFileName =
     [(''name'', JStr cleanFileName),
      (''ext'', JStr (''.'' @ extension)),
      (''mime'', JStr contentType),
      (''url'', JStr imageUrl),
      (''provider'', JStr ''aws-s3''),
      (''original_url'', JStr imageUrl),
      (''r2_backup_url'', JStr (r2PublicUrl e @ ''/'' @ cleanFileName)),
      (''r2_key'', JStr cleanFileName),
      (''original_filename'', strOrNull originalFileName),
      (''caption'', JStr (if truthy originalFileName
          then orEmpty originalFileName @ '' (Promidata: '' @ imageUrl @ '')''
          else ''Promidata: '' @ imageUrl)),
      (''alternativeText'', JStr cleanFileName)]"

text \<open>Every failure inside \<^verbatim>\<open>uploadImageFromUrl\<close> ends in its \<^verbatim>\<open>catch\<close> block, which
  returns \<^verbatim>\<open>null\<close>.\<close>

definition uploadImageFromUrl :: "env \<Rightarrow> state \<Rightarrow> string \<Rightarrow> string \<Rightarrow> string option
    \<Rightarrow> nat option \<times> state" where
  "uploadImageFromUrl e st imageUrl fileName originalFileName =
     (case download e imageUrl of
        NotOk statusText \<Rightarrow> (None, st)
      | Ok header \<Rightarrow>
          (let contentType = (if truthy header then orEmpty header else ''image/jpeg'');
               extension = imageExtension contentType imageUrl;
               cleanFileName = fileName @ ''.'' @ extension
           in if \<not> r2Put e cleanFileName then (None, st)
              else
                (case snd (retry
                        (\<lambda>attempt. if fileCreate e cleanFileName attempt
                           then Inr (createEntity st FileT
                                  (fileData e cleanFileName extension contentType imageUrl
                                     originalFileName))
                           else Inl (Error ''create failed''))
                        3 1000 0) of
                   Inl err \<Rightarrow> (None, st)
                 | Inr (uploadedFile, st') \<Rightarrow> (Some (fst uploadedFile), st'))))"

section \<open>Entity upserts\<close>

subsection \<open>\<^verbatim>\<open>createOrUpdateCategory\<close> and \<^verbatim>\<open>createOrUpdateSupplier\<close>\<close>

record category_data =
  cat_code :: string
  cat_name :: string
  parent_code :: "string option"

definition categoryDataOf :: "state \<Rightarrow> category_data \<Rightarrow> obj" where
  "categoryDataOf st categoryData =
     [(''code'', JStr (cat_code categoryData)),
      (''name'', JObj [(''en'', JStr (cat_name categoryData))])]
     @ (if truthy (parent_code categoryData)
        then (case findMany st CategoryT (fieldIs ''code'' (JStr (orEmpty (parent_code categoryData)))) of
                [] \<Rightarrow> []
              | parentCategory # _ \<Rightarrow> [(''parent'', JNum (int (fst parentCategory)))])
        else [])"

definition createOrUpdateCategory :: "state \<Rightarrow> category_data \<Rightarrow> row \<times> state" where
  "createOrUpdateCategory st categoryData =
     (case findMany st CategoryT (fieldIs ''code'' (JStr (cat_code categoryData))) of
        existing # _ \<Rightarrow> updateEntity st CategoryT (fst existing) (categoryDataOf st categoryData)
      | [] \<Rightarrow> createEntity st CategoryT (categoryDataOf st categoryData))"

record supplier_data =
  sd_code :: string
  sd_name :: "string option"

definition supplierDataOf :: "supplier_data \<Rightarrow> obj" where
  "supplierDataOf supplierData =
     [(''code'', JStr (sd_code supplierData)),
      (''name'', JStr (if truthy (sd_name supplierData) then orEmpty (sd_name supplierData)
                       else sd_code supplierData))]"

definition createOrUpdateSupplier :: "state \<Rightarrow> supplier_data \<Rightarrow> row \<times> state" where
  "createOrUpdateSupplier st supplierData =
     (case findMany st SupplierT (fieldIs ''code'' (JStr (sd_code supplierData))) of
        existing # _ \<Rightarrow> updateEntity st SupplierT (fst existing) (supplierDataOf supplierData)
      | [] \<Rightarrow> createEntity st SupplierT (supplierDataOf supplierData))"

subsection \<open>\<^verbatim>\<open>createOrUpdateParentProduct\<close>\<close>

definition extractProductCode :: "product_doc \<Rightarrow> string option \<Rightarrow> string option" where
  "extractProductCode productData urlOpt =
     (if truthy (pd_Sku productData) then pd_Sku productData
      else if truthy (pd_SupplierSku productData) then pd_SupplierSku productData
      else (case (case urlOpt of
                    None \<Rightarrow> None
                  | Some u \<Rightarrow> if u \<noteq> [] \<and> fileNameCode u \<noteq> [] then Some (fileNameCode u) else None) of
              Some productCode \<Rightarrow> Some productCode
            | None \<Rightarrow> firstTruthy (\<lambda>v. v) (otherCodes productData)))"

definition nonLangBrand :: "product_doc \<Rightarrow> string" where
  "nonLangBrand productData =
     (case pd_NonLanguageDependedProductDetails productData of
        None \<Rightarrow> [] | Some nonLang \<Rightarrow> orEmpty (Brand nonLang))"

definition nonLangCategory :: "product_doc \<Rightarrow> string" where
  "nonLangCategory productData =
     (case pd_NonLanguageDependedProductDetails productData of
        None \<Rightarrow> [] | Some nonLang \<Rightarrow> orEmpty (Category nonLang))"

text \<open>\<^verbatim>\<open>getSupplierNameByANumber\<close>\<close>

definition supplierNameByANumber :: "state \<Rightarrow> string \<Rightarrow> string" where
  "supplierNameByANumber st aNumber =
     (if aNumber = [] then []
      else (case findMany st SupplierT (fieldIs ''code'' (JStr aNumber)) of
              [] \<Rightarrow> []
            | matchingSupplier # _ \<Rightarrow>
                (case map_of (snd matchingSupplier) ''name'' of
                   Some (JStr n) \<Rightarrow> n
                 | _ \<Rightarrow> [])))"

text \<open>\<^verbatim>\<open>parentProductData.Sku || productCode || ""\<close>\<close>

definition parentSkuOf :: "product_doc \<Rightarrow> string \<Rightarrow> string" where
  "parentSkuOf parentProductData productCode =
     (if truthy (pd_Sku parentProductData) then orEmpty (pd_Sku parentProductData) else productCode)"

text \<open>The object \<^verbatim>\<open>parentData\<close>. Left out are \<^verbatim>\<open>default_products\<close>,
  \<^verbatim>\<open>customs_tariff_number\<close>, \<^verbatim>\<open>battery_information\<close>, \<^verbatim>\<open>required_certificates\<close>, the
  weight and the dimensions: each is a projection of the document like \<^verbatim>\<open>brand\<close>.\<close>

definition parentDataOf :: "env \<Rightarrow> state \<Rightarrow> product_doc \<Rightarrow> supplier \<Rightarrow> string \<Rightarrow> string \<Rightarrow> obj" where
  "parentDataOf e st parentProductData supplier h productCode =
     (let aNumber = orEmpty (ANumber parentProductData);
          supplierNameFromLookup = supplierNameByANumber st aNumber
      in [(''sku'', JStr (parentSkuOf parentProductData productCode)),
          (''a_number'', JStr aNumber),
          (''supplier_sku'', JStr (orEmpty (pd_SupplierSku parentProductData))),
          (''supplier_name'', JStr (if supplierNameFromLookup \<noteq> [] then supplierNameFromLookup
                                    else orEmpty (SupplierNameToShow parentProductData))),
          (''brand'', JStr (nonLangBrand parentProductData)),
          (''category'', JStr (nonLangCategory parentProductData)),
          (''total_variants_count'',
             JNum (case ChildProducts parentProductData of None \<Rightarrow> 0 | Some cs \<Rightarrow> int (length cs))),
          (''promidata_hash'', JStr h),
          (''supplier'', JNum (int (sup_id supplier))),
          (''last_synced'', JStr (now e))])"

text \<open>The copy written to \<^verbatim>\<open>api::product.product\<close>; its localized name and description and
  the empty JSON fields are left out.\<close>

definition productDataOf :: "obj \<Rightarrow> nat \<Rightarrow> obj" where
  "productDataOf parentData parentProductId =
     filter (\<lambda>kv. fst kv \<in> set [''sku'', ''brand'', ''promidata_hash'', ''last_synced'']) parentData
     @ [(''is_active'', JBool True), (''parent_product_ref'', JNum (int parentProductId))]
     @ filter (\<lambda>kv. fst kv \<in> set [''a_number'', ''supplier_sku'', ''supplier_name'', ''category'',
                                    ''total_variants_count'']) parentData"

record parent_result =
  parentProduct :: row
  pr_created :: bool

definition createOrUpdateParentProduct :: "env \<Rightarrow> state \<Rightarrow> product_doc \<Rightarrow> supplier \<Rightarrow> string
    \<Rightarrow> string option \<Rightarrow> (error + parent_result) \<times> state" where
  "createOrUpdateParentProduct e st parentProductData supplier h urlOpt =
     (case extractProductCode parentProductData urlOpt of
        None \<Rightarrow> (Inl (Error ''No valid parent product code found''), st)
      | Some productCode \<Rightarrow>
          (let parentData = parentDataOf e st parentProductData supplier h productCode;
               skuFilter = fieldIs ''sku'' (JStr (parentSkuOf parentProductData productCode));
               (parentProduct, st1) =
                  (case findMany st ParentProductT skuFilter of
                     existing # _ \<Rightarrow> updateEntity st ParentProductT (fst existing) parentData
                   | [] \<Rightarrow> createEntity st ParentProductT parentData);
               created = (findMany st ParentProductT skuFilter = []);
               productData = productDataOf parentData (fst parentProduct);
               st2 = (case findMany st1 ProductT skuFilter of
                        existingProduct # _ \<Rightarrow>
                          snd (updateEntity st1 ProductT (fst existingProduct) productData)
                      | [] \<Rightarrow> snd (createEntity st1 ProductT productData))
           in (Inr \<lparr>parentProduct = parentProduct, pr_created = created\<rparr>, st2)))"

subsection \<open>\<^verbatim>\<open>createOrUpdateProductVariant\<close>\<close>

fun firstSome :: "('k \<Rightarrow> 'v option) \<Rightarrow> 'k list \<Rightarrow> 'v option" where
  "firstSome f [] = None"
| "firstSome f (k # ks) = (case f k of Some v \<Rightarrow> Some v | None \<Rightarrow> firstSome f ks)"

definition langsOf :: "child_product \<Rightarrow> string list" where
  "langsOf c = (case ProductDetails c of None \<Rightarrow> [] | Some pd \<Rightarrow> map fst pd)"

text \<open>An image with a URL, as the pair of the URL and \<^verbatim>\<open>FileName || null\<close>.\<close>

definition imageOf :: "image_ref \<Rightarrow> (string \<times> string option) option" where
  "imageOf img =
     (if truthy (Url img)
      then Some (orEmpty (Url img), if truthy (FileName img) then FileName img else None)
      else None)"

definition primaryImageOf :: "child_product \<Rightarrow> (string \<times> string option) option" where
  "primaryImageOf c =
     firstSome (\<lambda>langKey. case langDetails c langKey of
                   None \<Rightarrow> None
                 | Some d \<Rightarrow> (case ld_Image d of None \<Rightarrow> None | Some img \<Rightarrow> imageOf img))
       (langsOf c)"

definition imagesWithUrl :: "image_ref list option \<Rightarrow> (string \<times> string option) list" where
  "imagesWithUrl imgs =
     (case imgs of
        None \<Rightarrow> []
      | Some xs \<Rightarrow> concat (map (\<lambda>img. case imageOf img of None \<Rightarrow> [] | Some p \<Rightarrow> [p]) xs))"

definition galleryImagesOf :: "child_product \<Rightarrow> (string \<times> string option) list" where
  "galleryImagesOf c =
     concat (map (\<lambda>langKey. case langDetails c langKey of
                    None \<Rightarrow> []
                  | Some d \<Rightarrow> imagesWithUrl (ld_MediaGalleryImages d))
               (langsOf c))"

definition informationFilesOf :: "child_product \<Rightarrow> (string \<times> string option) list" where
  "informationFilesOf c =
     concat (map (\<lambda>langKey. case langDetails c langKey of
                    None \<Rightarrow> []
                  | Some d \<Rightarrow> map (\<lambda>p. (fst p, None)) (imagesWithUrl (ld_InformationFiles d)))
               (langsOf c))"

text \<open>Decimal digits of a number, for \<^verbatim>\<open>${i + 1}\<close>.\<close>

fun showNat :: "nat \<Rightarrow> string" where
  "showNat n =
     (if n < 10 then [char_of (48 + n)] else showNat (n div 10) @ [char_of (48 + n mod 10)])"

text \<open>The upload loops over the gallery images and the information files: the name prefix ends
  with \<^verbatim>\<open>-gallery-\<close> or \<^verbatim>\<open>-info-file-\<close>, and an id is kept when it is truthy.\<close>

fun uploadMany :: "env \<Rightarrow> string \<Rightarrow> (string \<times> string option) list \<Rightarrow> nat \<Rightarrow> state \<Rightarrow> nat list
    \<Rightarrow> nat list \<times> state" where
  "uploadMany e namePrefix [] i st ids = (ids, st)"
| "uploadMany e namePrefix (img # imgs) i st ids =
     (case uploadImageFromUrl e st (fst img) (namePrefix @ showNat (i + 1)) (snd img) of
        (r, st') \<Rightarrow>
          uploadMany e namePrefix imgs (i + 1) st'
            (case r of None \<Rightarrow> ids | Some fid \<Rightarrow> if fid \<noteq> 0 then ids @ [fid] else ids))"

text \<open>\<^verbatim>\<open>/BLSales$/i\<close>, \<^verbatim>\<open>/BOR/i\<close>, \<^verbatim>\<open>/BOR(\w+)/i\<close> and \<^verbatim>\<open>/BOR(\d+)/\<close>.\<close>

definition testBLSales :: "string \<Rightarrow> bool" where
  "testBLSales s = suffix ''blsales'' (toLowerCase s)"

definition testBOR :: "string \<Rightarrow> bool" where
  "testBOR s = includesStr (toLowerCase s) ''bor''"

definition isWordChar :: "char \<Rightarrow> bool" where
  "isWordChar c = (isAlnum c \<or> c = CHR ''_'')"

fun matchBORword :: "string \<Rightarrow> string option" where
  "matchBORword [] = None"
| "matchBORword (c # cs) =
     (if prefix ''bor'' (toLowerCase (c # cs)) \<and> takeWhile isWordChar (drop 2 cs) \<noteq> []
      then Some (takeWhile isWordChar (drop 2 cs))
      else matchBORword cs)"

fun matchBORdigits :: "string \<Rightarrow> string option" where
  "matchBORdigits [] = None"
| "matchBORdigits (c # cs) =
     (if prefix ''BOR'' (c # cs) \<and> takeWhile isDigit (drop 2 cs) \<noteq> []
      then Some (takeWhile isDigit (drop 2 cs))
      else matchBORdigits cs)"

definition extractEmbroiderySizes :: "string \<Rightarrow> string list option" where
  "extractEmbroiderySizes variantSku =
     (if startsWith variantSku ''BOR''
      then (case matchBORdigits variantSku of
              None \<Rightarrow> None
            | Some ds \<Rightarrow> Some (map (\<lambda>i. ''BOR'' @ showNat i) [1 ..< Suc (natOfDigits ds)]))
      else None)"

definition isServiceBaseVariant :: "string \<Rightarrow> bool" where
  "isServiceBaseVariant variantSku = startsWith variantSku ''BLSales''"

text \<open>The name by language priority.\<close>

definition langName :: "child_product \<Rightarrow> string \<Rightarrow> string option" where
  "langName c lang = (case langDetails c lang of None \<Rightarrow> None | Some d \<Rightarrow> ld_Name d)"

definition extractNameWithPriority :: "child_product \<Rightarrow> string option" where
  "extractNameWithPriority c =
     (case firstTruthy (langName c) languagePriority of
        Some n \<Rightarrow> Some n
      | None \<Rightarrow> firstTruthy (langName c) (filter (\<lambda>lang. lang \<notin> set languagePriority) (langsOf c)))"

text \<open>The values that the function computes before its \<^verbatim>\<open>try\<close> block, while
  \<^verbatim>\<open>variantSku\<close> still holds its initial value \<^verbatim>\<open>null\<close>.\<close>

definition isA73 :: "string \<Rightarrow> bool" where
  "isA73 parentProductSku = (parentProductSku \<noteq> [] \<and> startsWith parentProductSku ''A73'')"

definition colorGroupKeyOf :: "child_product \<Rightarrow> string \<Rightarrow> string option" where
  "colorGroupKeyOf c parentProductSku =
     (if isA73 parentProductSku
      then (let k = orElse (orElse (uiColorCode (UnstructuredInformation c)) (langColorCode c ''en''))
                      (configColorFor c ''en'')
            in if truthy k then k else None)
      else None)"

definition initialVariantSku :: "string option" where
  "initialVariantSku = None"

definition isBLSalesOf :: "string \<Rightarrow> bool" where
  "isBLSalesOf parentProductSku =
     (isA73 parentProductSku \<and> testBLSales (orEmpty initialVariantSku))"

definition isBOROf :: "string \<Rightarrow> bool" where
  "isBOROf parentProductSku = (isA73 parentProductSku \<and> testBOR (orEmpty initialVariantSku))"

text \<open>Collecting an embroidery size for the colour group.\<close>

definition collectEmbroiderySize :: "state \<Rightarrow> child_product \<Rightarrow> string \<Rightarrow> string \<Rightarrow> state" where
  "collectEmbroiderySize st c parentProductSku variantSku =
     (if isA73 parentProductSku \<and> isBOROf parentProductSku
      then (case colorGroupKeyOf c parentProductSku of
              None \<Rightarrow> st
            | Some colorGroupKey \<Rightarrow>
                (case matchBORword variantSku of
                   None \<Rightarrow> st
                 | Some m \<Rightarrow>
                     st\<lparr>a73EmbroiderySizes :=
                          Some (groupByAdd (case a73EmbroiderySizes st of None \<Rightarrow> [] | Some x \<Rightarrow> x)
                                  colorGroupKey m)\<rparr>))
      else st)"

definition a73EmbroiderySizesFor :: "state \<Rightarrow> child_product \<Rightarrow> string \<Rightarrow> string list option" where
  "a73EmbroiderySizesFor st c parentProductSku =
     (if isA73 parentProductSku \<and> isBLSalesOf parentProductSku
      then (case colorGroupKeyOf c parentProductSku of
              None \<Rightarrow> None
            | Some colorGroupKey \<Rightarrow>
                (case a73EmbroiderySizes st of None \<Rightarrow> None | Some m \<Rightarrow> map_of m colorGroupKey))
      else None)"

definition idOrNull :: "nat option \<Rightarrow> jsv" where
  "idOrNull v = (case v of None \<Rightarrow> JNull | Some i \<Rightarrow> JNum (int i))"

definition stringsOrNull :: "string list option \<Rightarrow> jsv" where
  "stringsOrNull v = (case v of None \<Rightarrow> JNull | Some xs \<Rightarrow> JArr (map JStr xs))"

text \<open>The object \<^verbatim>\<open>variantData\<close>. Of the descriptive fields the name and the supplier colour
  code are kept; the others (descriptions, meta fields, colour, size, material, compliance
  texts, flags, weight and dimensions) are projections of the child document of the same
  kind.\<close>

definition variantDataOf :: "env \<Rightarrow> state \<Rightarrow> child_product \<Rightarrow> nat \<Rightarrow> string \<Rightarrow> string
    \<Rightarrow> nat option \<Rightarrow> nat list \<Rightarrow> nat list \<Rightarrow> obj" where
  "variantDataOf e st c parentProductId parentProductSku variantSku primaryImageId galleryImageIds
      informationFileIds =
     [(''sku'', JStr variantSku),
      (''parent_product'', JNum (int parentProductId)),
      (''name'', strOrNull (extractNameWithPriority c)),
      (''primary_image'', idOrNull primaryImageId),
      (''gallery_images'', JArr (map (\<lambda>i. JNum (int i)) galleryImageIds)),
      (''information_files'', JArr (map (\<lambda>i. JNum (int i)) informationFileIds)),
      (''supplier_color_code'', strOrNull (supplierColorCodeOf c)),
      (''embroidery_sizes'',
         stringsOrNull (case a73EmbroiderySizesFor st c parentProductSku of
                          Some sizes \<Rightarrow> Some sizes
                        | None \<Rightarrow> extractEmbroiderySizes variantSku)),
      (''is_service_base'',
         JBool (if isA73 parentProductSku then isBLSalesOf parentProductSku
                else isServiceBaseVariant variantSku)),
      (''sizes'', JArr []),
      (''is_primary_for_color'',
         JBool (if isA73 parentProductSku then isBLSalesOf parentProductSku else False)),
      (''last_synced'', JStr (now e))]"

text \<open>The filter \<^verbatim>\<open>{ sku: variantSku, parent_product: { id: parentProductId } }\<close>\<close>

definition variantFilter :: "string \<Rightarrow> nat \<Rightarrow> obj \<Rightarrow> bool" where
  "variantFilter variantSku parentProductId object =
     (fieldIs ''sku'' (JStr variantSku) object
      \<and> fieldIs ''parent_product'' (JNum (int parentProductId)) object)"

record variant_result =
  productVariant :: row
  created :: bool
  updated :: bool

definition createOrUpdateProductVariant :: "env \<Rightarrow> state \<Rightarrow> child_product \<Rightarrow> nat \<Rightarrow> string
    \<Rightarrow> (error + variant_result) \<times> state" where
  "createOrUpdateProductVariant e st childProductData parentProductId parentProductSku =
     (case extractVariantSku childProductData parentProductSku of
        None \<Rightarrow> (Inl (Error ''No valid product variant SKU found''), st)
      | Some variantSku \<Rightarrow>
          (let st1 = collectEmbroiderySize st childProductData parentProductSku variantSku;
               existingVariant =
                 findMany st1 ProductVariantT (variantFilter variantSku parentProductId);
               (primaryImageId, st2) =
                 (case primaryImageOf childProductData of
                    None \<Rightarrow> (None, st1)
                  | Some img \<Rightarrow>
                      uploadImageFromUrl e st1 (fst img) (variantSku @ ''-primary'') (snd img));
               (galleryImageIds, st3) =
                 uploadMany e (variantSku @ ''-gallery-'') (galleryImagesOf childProductData) 0 st2 [];
               (informationFileIds, st4) =
                 uploadMany e (variantSku @ ''-info-file-'') (informationFilesOf childProductData)
                   0 st3 [];
               variantData =
                 variantDataOf e st4 childProductData parentProductId parentProductSku variantSku
                   primaryImageId galleryImageIds informationFileIds
           in case existingVariant of
                existingData # _ \<Rightarrow>
                  (let existingCleanData =
                         omit (snd existingData) [''id'', ''createdAt'', ''updatedAt'', ''publishedAt''];
                       comparableVariantData = omit variantData [''last_synced''];
                       comparableExistingData =
                         omit existingCleanData [''last_synced'', ''parent_product'']
                   in if isEqual comparableVariantData comparableExistingData
                      then (Inr \<lparr>productVariant = existingData, created = False, updated = False\<rparr>,
                            st4)
                      else (case updateEntity st4 ProductVariantT (fst existingData) variantData of
                              (pv, st5) \<Rightarrow>
                                (Inr \<lparr>productVariant = pv, created = False, updated = True\<rparr>, st5)))
              | [] \<Rightarrow>
                  (case createEntity st4 ProductVariantT variantData of
                     (pv, st5) \<Rightarrow>
                       (Inr \<lparr>productVariant = pv, created = True, updated = False\<rparr>, st5))))"

section \<open>Sync orchestrator\<close>

record counters =
  importedParentProducts :: nat
  updatedParentProducts :: nat
  skippedParentProducts :: nat
  importedVariants :: nat
  updatedVariants :: nat
  skippedVariants :: nat
  errorDetails :: "(string \<times> string \<times> string) list"

datatype sync_result = NoProducts string | Completed counters

definition zeroCounters :: counters where
  "zeroCounters =
     \<lparr>importedParentProducts = 0, updatedParentProducts = 0, skippedParentProducts = 0,
      importedVariants = 0, updatedVariants = 0, skippedVariants = 0, errorDetails = []\<rparr>"

text \<open>\<^verbatim>\<open>existingParentProductsMap.get(productCode)\<close>: the map is filled row by row, so the
  last row of a SKU stays.\<close>

definition mapGet :: "row list \<Rightarrow> string \<Rightarrow> row option" where
  "mapGet existingParentProducts productCode =
     (case filter (\<lambda>r. fieldIs ''sku'' (JStr productCode) (snd r)) existingParentProducts of
        [] \<Rightarrow> None
      | r # rs \<Rightarrow> Some (last (r # rs)))"

definition storedHashOf :: "row option \<Rightarrow> string option" where
  "storedHashOf existingParentProduct =
     (case existingParentProduct of
        None \<Rightarrow> None
      | Some r \<Rightarrow> (case map_of (snd r) ''promidata_hash'' of Some (JStr x) \<Rightarrow> Some x | _ \<Rightarrow> None))"

text \<open>The \<^verbatim>\<open>catch\<close> block of one product: the entry is the product code, the URL and the
  message.\<close>

definition pushError :: "counters \<Rightarrow> string \<Rightarrow> error \<Rightarrow> counters" where
  "pushError cnt u err =
     cnt\<lparr>errorDetails := errorDetails cnt
            @ [(if fileNameCode u \<noteq> [] then fileNameCode u else ''unknown'', u,
                (case err of Error message \<Rightarrow> message))]\<rparr>"

definition countVariant :: "counters \<Rightarrow> variant_result \<Rightarrow> counters" where
  "countVariant cnt variantResult =
     (if created variantResult then cnt\<lparr>importedVariants := importedVariants cnt + 1\<rparr>
      else if updated variantResult then cnt\<lparr>updatedVariants := updatedVariants cnt + 1\<rparr>
      else cnt\<lparr>skippedVariants := skippedVariants cnt + 1\<rparr>)"

text \<open>The loop over the colours of one product. An exception leaves the loop; what was
  counted and written before stays.\<close>

fun processGroups :: "env \<Rightarrow> string \<Rightarrow> child_product list \<Rightarrow> nat
    \<Rightarrow> (string \<times> child_product list) list \<Rightarrow> state \<times> counters
    \<Rightarrow> error option \<times> state \<times> counters" where
  "processGroups e productCode childProducts parentProductId [] (st, cnt) = (None, st, cnt)"
| "processGroups e productCode childProducts parentProductId ((colorCode, colorVariants) # groups)
      (st, cnt) =
     (let sizesForColor = extractSizesForColor childProducts colorCode productCode
      in case colorVariants of
           [] \<Rightarrow> (Some (Error ''Cannot read properties of undefined''), st, cnt)
         | primaryVariant # _ \<Rightarrow>
             (case createOrUpdateProductVariant e st primaryVariant parentProductId productCode of
                (Inl err, st1) \<Rightarrow> (Some err, st1, cnt)
              | (Inr variantResult, st1) \<Rightarrow>
                  processGroups e productCode childProducts parentProductId groups
                    (snd (updateEntity st1 ProductVariantT (fst (productVariant variantResult))
                            [(''sizes'', JArr (map JStr sizesForColor)),
                             (''is_primary_for_color'', JBool True)]),
                     countVariant cnt variantResult)))"

definition countSkipped :: "row list \<Rightarrow> manifest_entry \<Rightarrow> counters \<Rightarrow> counters" where
  "countSkipped existingParentProducts entry cnt =
     (case storedHashOf (mapGet existingParentProducts (fileNameCode (url entry))) of
        None \<Rightarrow> cnt
      | Some existingHash \<Rightarrow>
          if existingHash \<noteq> [] \<and> trim existingHash = trim (hash entry)
          then cnt\<lparr>skippedParentProducts := skippedParentProducts cnt + 1\<rparr>
          else cnt)"

definition countParent :: "counters \<Rightarrow> parent_result \<Rightarrow> counters" where
  "countParent cnt parentProductResult =
     (if pr_created parentProductResult
      then cnt\<lparr>importedParentProducts := importedParentProducts cnt + 1\<rparr>
      else cnt\<lparr>updatedParentProducts := updatedParentProducts cnt + 1\<rparr>)"

text \<open>The body of the loop over the manifest entries, with its \<^verbatim>\<open>try\<close> and \<^verbatim>\<open>catch\<close>.\<close>

definition processProduct :: "env \<Rightarrow> supplier \<Rightarrow> row list \<Rightarrow> state \<times> counters \<Rightarrow> manifest_entry
    \<Rightarrow> state \<times> counters" where
  "processProduct e supplier existingParentProducts sc entry =
     (let st = fst sc;
          cnt1 = countSkipped existingParentProducts entry (snd sc);
          productCode = fileNameCode (url entry)
      in case documents e (url entry) of
           NotOk statusText \<Rightarrow>
             (st, pushError cnt1 (url entry)
                    (Error (''Failed to fetch product from '' @ url entry @ '': '' @ statusText)))
         | Ok productData \<Rightarrow>
             (case createOrUpdateParentProduct e st productData supplier (hash entry)
                     (Some (url entry)) of
                (Inl err, st1) \<Rightarrow> (st1, pushError cnt1 (url entry) err)
              | (Inr parentProductResult, st1) \<Rightarrow>
                  (case ChildProducts productData of
                     None \<Rightarrow> (st1, countParent cnt1 parentProductResult)
                   | Some childProducts \<Rightarrow>
                       if childProducts = [] then (st1, countParent cnt1 parentProductResult)
                       else
                         (case processGroups e productCode childProducts
                                 (fst (parentProduct parentProductResult))
                                 (variantsByColorCode childProducts productCode)
                                 (st1, countParent cnt1 parentProductResult) of
                            (None, st2, cnt3) \<Rightarrow> (st2, cnt3)
                          | (Some err, st2, cnt3) \<Rightarrow> (st2, pushError cnt3 (url entry) err)))))"

definition syncSupplier :: "env \<Rightarrow> state \<Rightarrow> supplier \<Rightarrow> (error + sync_result) \<times> state" where
  "syncSupplier e st supplier =
     (case parseProductUrlsWithHashes e (sup_code supplier) of
        Inl err \<Rightarrow> (Inl err, st)
      | Inr productUrlsWithHashes \<Rightarrow>
          if productUrlsWithHashes = []
          then (Inr (NoProducts ''No products available for this supplier''), st)
          else (case foldl (processProduct e supplier (findMany st ParentProductT (\<lambda>object. True)))
                       (st, zeroCounters) productUrlsWithHashes of
                  (st', cnt) \<Rightarrow> (Inr (Completed cnt), st')))"

section \<open>HTML cleaning\<close>

text \<open>
  \<^verbatim>\<open>text.replace(/re/g, rep)\<close> scans from the left; where the expression matches, the match
  is replaced and the scan goes on behind it, elsewhere the character is kept. A matcher
  gets the character at the position and the text behind it, and answers how many characters
  behind the first one the match takes. All expressions of \<^verbatim>\<open>cleanHtmlFromDescription\<close>
  match at least one character.
\<close>

fun replaceAll :: "(char \<Rightarrow> string \<Rightarrow> nat option) \<Rightarrow> string \<Rightarrow> string \<Rightarrow> string" where
  "replaceAll m rep [] = []"
| "replaceAll m rep (c # cs) =
     (case m c cs of
        Some k \<Rightarrow> rep @ replaceAll m rep (drop k cs)
      | None \<Rightarrow> c # replaceAll m rep cs)"

definition isBlank :: "char \<Rightarrow> bool" where
  "isBlank c = (c = CHR '' '' \<or> c = CHR 0x09)"























text \<open>The number of newlines at the start of a text.\<close>

definition lead :: "string \<Rightarrow> nat" where
  "lead s = length (takeWhile (\<lambda>x. x = newline) s)"

section \<open>Characterisations used in the statements\<close>

text \<open>The entry that one manifest line adds to the error list of a run, read off the
  manifest line and the product document alone: the document cannot be fetched, it gives no
  parent product code, or the primary child of one of its colour groups gives no variant
  SKU.\<close>

definition entryErrors :: "env \<Rightarrow> manifest_entry \<Rightarrow> (string \<times> string \<times> string) list" where
  "entryErrors e entry =
     (let u = url entry;
          productCode = fileNameCode u;
          reported = (if productCode \<noteq> [] then productCode else ''unknown'')
      in case documents e u of
           NotOk statusText \<Rightarrow>
             [(reported, u, ''Failed to fetch product from '' @ u @ '': '' @ statusText)]
         | Ok productData \<Rightarrow>
             (case extractProductCode productData (Some u) of
                None \<Rightarrow> [(reported, u, ''No valid parent product code found'')]
              | Some code \<Rightarrow>
                  (case ChildProducts productData of
                     None \<Rightarrow> []
                   | Some childProducts \<Rightarrow>
                       if list_ex (\<lambda>g. extractVariantSku (hd (snd g)) productCode = None)
                            (variantsByColorCode childProducts productCode)
                       then [(reported, u, ''No valid product variant SKU found'')]
                       else [])))"

text \<open>The number of variant upserts that a run has counted.\<close>

definition variantsCounted :: "counters \<Rightarrow> nat" where
  "variantsCounted cnt = importedVariants cnt + updatedVariants cnt + skippedVariants cnt"

section \<open>Example documents\<close>

text \<open>A configuration field with a plain name, and a child record that carries a SKU, a supplier
  colour code and the two configuration fields \<^verbatim>\<open>Color\<close> and \<^verbatim>\<open>Size\<close> in English.\<close>

definition exField :: "string \<Rightarrow> string \<Rightarrow> config_field" where
  "exField n v =
     \<lparr>ConfigurationName = Some n, ConfigurationNameTranslated = NTAbsent,
      ConfigurationValue = Some v\<rparr>"

definition exLang :: "config_field list \<Rightarrow> lang_details" where
  "exLang fs =
     \<lparr>ld_Sku = None, ld_Name = None, ld_UnstructuredInformation = None,
      ld_ConfigurationFields = Some fs, ld_Image = None, ld_MediaGalleryImages = None,
      ld_InformationFiles = None\<rparr>"

definition exChild :: "string \<Rightarrow> string \<Rightarrow> string \<Rightarrow> child_product" where
  "exChild sku colour sz =
     \<lparr>Sku = Some sku, SupplierSku = None, A_number = None,
      UnstructuredInformation = Some \<lparr>SupplierColorCode = Some colour\<rparr>,
      NonLanguageDependedProductDetails = None,
      ProductDetails = Some [(''en'', exLang [exField ''Color'' colour, exField ''Size'' sz])]\<rparr>"

text \<open>A manifest with the categories line and one product of supplier A113, its document
  with two children of colour 990, and an environment in which every image download fails.\<close>

definition exUrl :: string where
  "exUrl = ''https://h/A113/A113-1.json''"

definition exDoc :: "string \<Rightarrow> child_product list option \<Rightarrow> product_doc" where
  "exDoc brand children =
     \<lparr>pd_Sku = Some ''A113-1'', pd_SupplierSku = None, ANumber = None, SupplierNameToShow = None,
      pd_NonLanguageDependedProductDetails =
        Some \<lparr>nl_Sku = None, Brand = Some brand, Category = None\<rparr>,
      ChildProducts = children, otherCodes = []\<rparr>"

definition exEnv :: "string response \<Rightarrow> product_doc \<Rightarrow> env" where
  "exEnv importTxt doc =
     \<lparr>manifest = importTxt,
      documents = (\<lambda>u. if u = exUrl then Ok doc else NotOk ''Not Found''),
      download = (\<lambda>u. NotOk ''Internal Server Error''),
      r2Put = (\<lambda>k. True), fileCreate = (\<lambda>n a. True), r2PublicUrl = ''https://r2'',
      now = ''t1''\<rparr>"

definition exImportTxt :: "string response" where
  "exImportTxt = Ok (''https://h/Import/CAT.csv'' @ [newline] @ exUrl @ ''|H1'' @ [newline])"

definition exSupplier :: supplier where
  "exSupplier = \<lparr>sup_id = 1, sup_code = ''A113''\<rparr>"

definition emptyState :: state where
  "emptyState = \<lparr>rows = (\<lambda>t. []), nextId = 1, writes = [], a73EmbroiderySizes = None\<rparr>"

definition exChildren :: "child_product list" where
  "exChildren = [exChild ''A113-1-M'' ''990'' ''M'', exChild ''A113-1-L'' ''990'' ''L'']"

text \<open>A child with a primary image.\<close>

definition exChildWithImage :: child_product where
  "exChildWithImage =
     (exChild ''A113-1-M'' ''990'' ''M'')
       \<lparr>ProductDetails :=
          Some [(''en'', (exLang [exField ''Color'' ''990'', exField ''Size'' ''M''])
                   \<lparr>ld_Image := Some \<lparr>Url = Some ''https://img/m.png'', FileName = Some ''m.png''\<rparr>\<rparr>)]\<rparr>"

text \<open>A store that already holds the parent product of the example with the hash of the
  manifest and another brand.\<close>

definition exStoredParent :: state where
  "exStoredParent =
     \<lparr>rows = (\<lambda>t. if t = ParentProductT
                    then [(1, [(''sku'', JStr ''A113-1''), (''brand'', JStr ''Old''),
                               (''promidata_hash'', JStr ''H1''), (''last_synced'', JStr ''t0'')])]
                    else []),
      nextId = 2, writes = [], a73EmbroiderySizes = None\<rparr>"

text \<open>A category, and a store that already holds it with the same data.\<close>

definition exCategory :: category_data where
  "exCategory = \<lparr>cat_code = ''C1'', cat_name = ''Shirts'', parent_code = None\<rparr>"

definition exStoredCategory :: state where
  "exStoredCategory =
     \<lparr>rows = (\<lambda>t. if t = CategoryT
                    then [(1, [(''code'', JStr ''C1''), (''name'', JObj [(''en'', JStr ''Shirts'')])])]
                    else []),
      nextId = 2, writes = [], a73EmbroiderySizes = None\<rparr>"

text \<open>Two children of a product of supplier A73 in one colour group: an option SKU and the
  sales SKU.\<close>

definition exA73Child :: "string \<Rightarrow> child_product" where
  "exA73Child sku =
     \<lparr>Sku = Some sku, SupplierSku = None, A_number = None,
      UnstructuredInformation = Some \<lparr>SupplierColorCode = Some ''01''\<rparr>,
      NonLanguageDependedProductDetails = None, ProductDetails = None\<rparr>"

definition exA73Url :: string where
  "exA73Url = ''https://h/A73/A73-100.json''"

definition exA73Doc :: "child_product list \<Rightarrow> product_doc" where
  "exA73Doc children =
     \<lparr>pd_Sku = Some ''A73-100'', pd_SupplierSku = None, ANumber = None, SupplierNameToShow = None,
      pd_NonLanguageDependedProductDetails = None,
      ChildProducts = Some children, otherCodes = []\<rparr>"

definition exA73Env :: "child_product list \<Rightarrow> env" where
  "exA73Env children =
     \<lparr>manifest = Ok (exA73Url @ ''|H7''),
      documents = (\<lambda>u. if u = exA73Url then Ok (exA73Doc children) else NotOk ''Not Found''),
      download = (\<lambda>u. NotOk ''Not Found''),
      r2Put = (\<lambda>k. True), fileCreate = (\<lambda>n a. True), r2PublicUrl = ''https://r2'',
      now = ''t1''\<rparr>"

text \<open>Three children in two colours, the colour 990 first in the document; a child whose record
  states neither a SKU nor a colour; and an environment whose transport answers every product
  document with a failure.\<close>

definition exThreeChildren :: "child_product list" where
  "exThreeChildren =
     [exChild ''A113-1-M'' ''990'' ''M'', exChild ''A113-1-R'' ''100'' ''M'',
      exChild ''A113-1-L'' ''990'' ''L'']"

definition exBareChild :: child_product where
  "exBareChild =
     \<lparr>Sku = None, SupplierSku = None, A_number = None, UnstructuredInformation = None,
      NonLanguageDependedProductDetails = None, ProductDetails = None\<rparr>"

definition exNoDocumentsEnv :: env where
  "exNoDocumentsEnv =
     \<lparr>manifest = exImportTxt,
      documents = (\<lambda>u. NotOk ''Not Found''),
      download = (\<lambda>u. NotOk ''Internal Server Error''),
      r2Put = (\<lambda>k. True), fileCreate = (\<lambda>n a. True), r2PublicUrl = ''https://r2'',
      now = ''t1''\<rparr>"

section \<open>Properties of the size list\<close>










section \<open>Properties of the HTML cleaning\<close>




lemma replaceAll_hit:
  "m c cs = Some k \<Longrightarrow> replaceAll m rep (c # cs) = rep @ replaceAll m rep (drop k cs)"
  by simp

lemma lead_simps [simp]:
  "lead [] = 0"
  "lead (c # s) = (if c = newline then Suc (lead s) else 0)"
  by (simp_all add: lead_def)















lemma hd_dropWhile_blank: "dropWhile isBlank s \<noteq> [] \<Longrightarrow> \<not> isBlank (hd (dropWhile isBlank s))"
  by (rule hd_dropWhile)





















section \<open>Properties of the upserts and of a run\<close>


lemma isBLSalesOf_False: "isBLSalesOf p = False"
  by (simp add: isBLSalesOf_def initialVariantSku_def orEmpty_def testBLSales_def toLowerCase_def)

lemma isBOROf_False: "isBOROf p = False"
  by (simp add: isBOROf_def initialVariantSku_def orEmpty_def testBOR_def toLowerCase_def includesStr_def)

lemma collectEmbroiderySize_id: "collectEmbroiderySize st c p sku = st"
  by (simp add: collectEmbroiderySize_def isBOROf_False)

lemma a73EmbroiderySizesFor_None: "a73EmbroiderySizesFor st c p = None"
  by (simp add: a73EmbroiderySizesFor_def isBLSalesOf_False)

lemma map_of_omit: "k \<in> set ks \<Longrightarrow> map_of (omit x ks) k = None"
  by (induction x) (auto simp: omit_def)

lemma variant_never_equal:
  "\<not> isEqual (omit (variantDataOf e st c pid p sku pi gi fi) [''last_synced''])
       (omit x [''last_synced'', ''parent_product''])"
proof -
  have "map_of (omit x [''last_synced'', ''parent_product'']) ''parent_product'' = None"
    by (rule map_of_omit) simp
  then show ?thesis
    by (simp add: isEqual_def variantDataOf_def omit_def)
qed

lemma setProp_map_of: "map_of (setProp object k v) k' = (if k' = k then Some v else map_of object k')"
  by (induction object k v rule: setProp.induct) auto

lemma assign_map_of:
  "map_of (assign object source) k =
     (case map_of (rev source) k of Some v \<Rightarrow> Some v | None \<Rightarrow> map_of object k)"
proof (induction source arbitrary: object)
  case Nil
  show ?case by (simp add: assign_def)
next
  case (Cons kv source)
  have "assign object (kv # source) = assign (setProp object (fst kv) (snd kv)) source"
    by (simp add: assign_def)
  then show ?case
    by (cases kv) (auto simp: Cons.IH setProp_map_of map_add_def split: option.splits)
qed

lemma retry_all_fail:
  "(\<And>a. a \<le> n \<Longrightarrow> \<exists>err. fn (k + a) = Inl err) \<Longrightarrow>
     (\<exists>err. snd (retry fn n d k) = Inl err) \<and> fst (retry fn n d k) = map (\<lambda>i. d * 2 ^ i) [0..<n]"
proof (induction n arbitrary: d k)
  case 0
  from 0[of 0] obtain err where "fn k = Inl err" by auto
  then show ?case by simp
next
  case (Suc n)
  from Suc.prems[of 0] obtain err where e: "fn k = Inl err" by auto
  have "\<exists>err. fn (Suc k + a) = Inl err" if "a \<le> n" for a
    using Suc.prems[of "Suc a"] that by simp
  from Suc.IH[of "Suc k" "d * 2", OF this]
  obtain err' where r: "snd (retry fn n (d * 2) (Suc k)) = Inl err'"
    and ds: "fst (retry fn n (d * 2) (Suc k)) = map (\<lambda>i. d * 2 * 2 ^ i) [0..<n]" by auto
  have m: "map (\<lambda>i. d * 2 ^ i) [0..<Suc n] = d # map (\<lambda>i. d * 2 * 2 ^ i) [0..<n]"
  proof -
    have "[0..<Suc n] = 0 # [Suc 0..<Suc n]" by (rule upt_conv_Cons) simp
    also have "[Suc 0..<Suc n] = map Suc [0..<n]" by (rule map_Suc_upt[symmetric])
    finally show ?thesis by (simp add: comp_def del: upt_Suc)
  qed
  show ?case using e r ds m by (simp add: split_beta del: upt_Suc)
qed

lemma upload_download_fails:
  "download e u = NotOk m \<Longrightarrow> uploadImageFromUrl e st u fn ofn = (None, st)"
  by (simp add: uploadImageFromUrl_def)

lemma upload_put_fails:
  "download e u = Ok h \<Longrightarrow>
   \<not> r2Put e (fn @ ''.'' @ imageExtension (if truthy h then orEmpty h else ''image/jpeg'') u) \<Longrightarrow>
   uploadImageFromUrl e st u fn ofn = (None, st)"
  by (simp add: uploadImageFromUrl_def Let_def)

lemma upload_create_fails:
  assumes "download e u = Ok h"
    and "\<And>a. a \<le> 3 \<Longrightarrow> \<not> fileCreate e (fn @ ''.'' @ imageExtension (if truthy h then orEmpty h else ''image/jpeg'') u) a"
  shows "uploadImageFromUrl e st u fn ofn = (None, st)"
proof -
  let ?name = "fn @ ''.'' @ imageExtension (if truthy h then orEmpty h else ''image/jpeg'') u"
  let ?f = "\<lambda>attempt. if fileCreate e ?name attempt
               then Inr (createEntity st FileT
                      (fileData e ?name (imageExtension (if truthy h then orEmpty h else ''image/jpeg'') u)
                         (if truthy h then orEmpty h else ''image/jpeg'') u ofn))
               else Inl (Error ''create failed'')"
  have "\<exists>err. ?f (0 + a) = Inl err" if "a \<le> 3" for a using assms(2)[OF that] by simp
  from retry_all_fail[of 3 ?f 0 1000, OF this] obtain err where "snd (retry ?f 3 1000 0) = Inl err"
    by blast
  then have r: "snd (retry ?f 3 1000 0) = Inl err" .
  show ?thesis
  proof (cases "r2Put e ?name")
    case False
    with assms(1) show ?thesis by (rule upload_put_fails)
  next
    case True
    show ?thesis
      unfolding uploadImageFromUrl_def Let_def
      using assms(1) True r by (simp split del: if_split)
  qed
qed


lemma variant_error:
  "extractVariantSku c p = None \<Longrightarrow>
     createOrUpdateProductVariant e st c pid p = (Inl (Error ''No valid product variant SKU found''), st)"
  by (simp add: createOrUpdateProductVariant_def)

lemma variant_ok:
  assumes "extractVariantSku c p = Some sku"
  shows "\<exists>res st'. createOrUpdateProductVariant e st c pid p = (Inr res, st')
     \<and> created res = (findMany st ProductVariantT (variantFilter sku pid) = [])
     \<and> updated res = (findMany st ProductVariantT (variantFilter sku pid) \<noteq> [])"
  unfolding createOrUpdateProductVariant_def assms option.case collectEmbroiderySize_id Let_def
  by (auto simp: variant_never_equal split: prod.splits list.splits)


lemma parent_error:
  "extractProductCode d u = None \<Longrightarrow>
     createOrUpdateParentProduct e st d supp h u = (Inl (Error ''No valid parent product code found''), st)"
  by (simp add: createOrUpdateParentProduct_def)

lemma parent_ok:
  assumes "extractProductCode d u = Some code"
  shows "\<exists>res st'. createOrUpdateParentProduct e st d supp h u = (Inr res, st')
     \<and> pr_created res = (findMany st ParentProductT (fieldIs ''sku'' (JStr (parentSkuOf d code))) = [])"
  unfolding createOrUpdateParentProduct_def assms option.case Let_def
  by (auto split: prod.splits list.splits)

lemma countVariant_simps:
  "errorDetails (countVariant cnt r) = errorDetails cnt"
  "variantsCounted (countVariant cnt r) = Suc (variantsCounted cnt)"
  by (simp_all add: countVariant_def variantsCounted_def)

lemma processGroups_result:
  assumes "\<And>g. g \<in> set groups \<Longrightarrow> snd g \<noteq> []"
  shows "fst (processGroups e p cs pid groups (st, cnt)) =
           (if list_ex (\<lambda>g. extractVariantSku (hd (snd g)) p = None) groups
            then Some (Error ''No valid product variant SKU found'') else None)
     \<and> errorDetails (snd (snd (processGroups e p cs pid groups (st, cnt)))) = errorDetails cnt
     \<and> (\<not> list_ex (\<lambda>g. extractVariantSku (hd (snd g)) p = None) groups \<longrightarrow>
          variantsCounted (snd (snd (processGroups e p cs pid groups (st, cnt))))
            = variantsCounted cnt + length groups)"
  using assms
proof (induction groups arbitrary: st cnt)
  case Nil
  show ?case by simp
next
  case (Cons g groups)
  obtain k ms where g: "g = (k, ms)" by (cases g)
  from Cons.prems[of g] g obtain m ms' where ms: "ms = m # ms'" by (cases ms) auto
  have rest: "\<And>g. g \<in> set groups \<Longrightarrow> snd g \<noteq> []" using Cons.prems by simp
  show ?case
  proof (cases "extractVariantSku m p")
    case None
    then show ?thesis by (simp add: g ms variant_error)
  next
    case (Some sku)
    from variant_ok[OF Some, of e st pid] obtain res st' where
      r: "createOrUpdateProductVariant e st m pid p = (Inr res, st')" by blast
    show ?thesis
      using Cons.IH[OF rest] Some
      by (simp add: g ms r countVariant_simps)
  qed
qed


lemma groupBy_snoc: "groupBy f (xs @ [x]) = groupByAdd (groupBy f xs) (f x) x"
  by (simp add: groupBy_def)

lemma groupByAdd_keys: "fst ` set (groupByAdd g k v) = insert k (fst ` set g)"
  by (induction g k v rule: groupByAdd.induct) auto

lemma groupByAdd_distinct:
  "distinct (map fst g) \<Longrightarrow> distinct (map fst (groupByAdd g k v))"
  by (induction g k v rule: groupByAdd.induct) (auto simp: groupByAdd_keys)

lemma groupByAdd_lookup:
  "map_of (groupByAdd g k v) k' =
     (if k' = k then Some ((case map_of g k of None \<Rightarrow> [] | Some vs \<Rightarrow> vs) @ [v]) else map_of g k')"
  by (induction g k v rule: groupByAdd.induct) auto


lemma groupBy_distinct: "distinct (map fst (groupBy f xs))"
proof (induction xs rule: rev_induct)
  case Nil
  show ?case by (simp add: groupBy_def)
next
  case (snoc x xs)
  then show ?case unfolding groupBy_snoc by (rule groupByAdd_distinct)
qed

lemma groupBy_lookup:
  "map_of (groupBy f xs) k = (if k \<in> f ` set xs then Some (filter (\<lambda>x. f x = k) xs) else None)"
proof (induction xs arbitrary: k rule: rev_induct)
  case Nil
  show ?case by (simp add: groupBy_def)
next
  case (snoc x xs)
  have e: "filter (\<lambda>y. f y = f x) xs = []" if "f x \<notin> f ` set xs"
  proof -
    from that have "\<forall>y\<in>set xs. f y \<noteq> f x" by (metis imageI)
    then show ?thesis by (simp add: filter_empty_conv)
  qed
  show ?case unfolding groupBy_snoc groupByAdd_lookup snoc.IH
    using e by auto
qed

lemma groupBy_members:
  assumes "(k, ms) \<in> set (groupBy f xs)"
  shows "ms = filter (\<lambda>x. f x = k) xs \<and> ms \<noteq> [] \<and> k \<in> f ` set xs"
proof -
  from assms have "map_of (groupBy f xs) k = Some ms"
    using groupBy_distinct[of f xs] by simp
  then have k: "k \<in> f ` set xs" and ms: "ms = filter (\<lambda>x. f x = k) xs"
    unfolding groupBy_lookup by (auto split: if_splits)
  from k have "filter (\<lambda>x. f x = k) xs \<noteq> []"
    by (auto simp: filter_empty_conv)
  with k ms show ?thesis by simp
qed

lemma forInOrder_set: "set (forInOrder g) = set g"
  by (auto simp: forInOrder_def)




lemma variantsByColorCode_members:
  assumes "g \<in> set (variantsByColorCode cs p)"
  shows "snd g = filter (\<lambda>c. extractColorCodeForGrouping c p = fst g) cs \<and> snd g \<noteq> []"
proof -
  from assms have "(fst g, snd g) \<in> set (groupBy (\<lambda>c. extractColorCodeForGrouping c p) cs)"
    by (simp add: variantsByColorCode_def forInOrder_set)
  from groupBy_members[OF this] show ?thesis by blast
qed

lemma pushError_errors:
  "errorDetails (pushError cnt u (Error m))
     = errorDetails cnt @ [(if fileNameCode u \<noteq> [] then fileNameCode u else ''unknown'', u, m)]"
  by (simp add: pushError_def)

lemma countSkipped_errors: "errorDetails (countSkipped ex entry cnt) = errorDetails cnt"
  by (simp add: countSkipped_def split: option.splits)

lemma countParent_errors: "errorDetails (countParent cnt r) = errorDetails cnt"
  by (simp add: countParent_def)

lemma processProduct_errors:
  "errorDetails (snd (processProduct e supp ex (st, cnt) entry)) = errorDetails cnt @ entryErrors e entry"
proof (cases "documents e (url entry)")
  case (NotOk t)
  then show ?thesis
    by (simp add: processProduct_def entryErrors_def Let_def pushError_errors countSkipped_errors)
next
  case (Ok d)
  show ?thesis
  proof (cases "extractProductCode d (Some (url entry))")
    case None
    from parent_error[OF None] Ok None show ?thesis
      by (simp add: processProduct_def entryErrors_def Let_def pushError_errors countSkipped_errors)
  next
    case (Some code)
    note sc = Some
    from parent_ok[OF sc, of e st supp "hash entry"] obtain res st1 where
      r: "createOrUpdateParentProduct e st d supp (hash entry) (Some (url entry)) = (Inr res, st1)"
      by blast
    show ?thesis
    proof (cases "ChildProducts d")
      case None
      with Ok sc r show ?thesis
        by (simp add: processProduct_def entryErrors_def Let_def countSkipped_errors countParent_errors)
    next
      case (Some cs)
      note scs = Some
      let ?G = "variantsByColorCode cs (fileNameCode (url entry))"
      let ?c = "countParent (countSkipped ex entry cnt) res"
      have ne: "\<And>g. g \<in> set ?G \<Longrightarrow> snd g \<noteq> []"
        using variantsByColorCode_members by blast
      note pg = processGroups_result[of ?G e "fileNameCode (url entry)" cs "fst (parentProduct res)" st1 ?c, OF ne]
      show ?thesis
      proof (cases "cs = []")
        case True
        then have "?G = []" by (simp add: variantsByColorCode_def groupBy_def forInOrder_def)
        with True Ok sc scs r show ?thesis
          by (simp add: processProduct_def entryErrors_def Let_def countSkipped_errors countParent_errors)
      next
        case False
        obtain er st2 cnt3 where
          p: "processGroups e (fileNameCode (url entry)) cs (fst (parentProduct res)) ?G (st1, ?c) = (er, st2, cnt3)"
          by (metis prod_cases3)
        from pg p have er: "er = (if list_ex (\<lambda>g. extractVariantSku (hd (snd g)) (fileNameCode (url entry)) = None) ?G
            then Some (Error ''No valid product variant SKU found'') else None)"
          and c3: "errorDetails cnt3 = errorDetails cnt"
          by (simp_all add: countSkipped_errors countParent_errors)
        show ?thesis
          using False Ok sc scs r p er c3
          by (simp add: processProduct_def entryErrors_def Let_def pushError_errors)
      qed
    qed
  qed
qed

lemma foldl_processProduct_errors:
  "errorDetails (snd (foldl (processProduct e supp ex) (st, cnt) entries))
     = errorDetails cnt @ concat (map (entryErrors e) entries)"
proof (induction entries arbitrary: st cnt)
  case Nil
  show ?case by simp
next
  case (Cons entry entries)
  obtain st1 cnt1 where p: "processProduct e supp ex (st, cnt) entry = (st1, cnt1)" by (metis surj_pair)
  from processProduct_errors[of e supp ex st cnt entry] p
  have "errorDetails cnt1 = errorDetails cnt @ entryErrors e entry" by simp
  with Cons.IH[of st1 cnt1] p show ?case by simp
qed

lemma parse_total: "\<exists>entries. parseProductUrlsWithHashes e code = Inr entries"
  by (simp add: parseProductUrlsWithHashes_def split: sum.splits)

lemma syncSupplier_cases:
  assumes "parseProductUrlsWithHashes e (sup_code supp) = Inr entries"
  shows "(entries = [] \<longrightarrow>
            syncSupplier e st supp = (Inr (NoProducts ''No products available for this supplier''), st))
     \<and> (entries \<noteq> [] \<longrightarrow>
          (\<exists>cnt st'. syncSupplier e st supp = (Inr (Completed cnt), st')
             \<and> errorDetails cnt = concat (map (entryErrors e) entries)))"
proof -
  obtain st' cnt where
    f: "foldl (processProduct e supp (findMany st ParentProductT (\<lambda>object. True))) (st, zeroCounters) entries = (st', cnt)"
    by (metis surj_pair)
  from foldl_processProduct_errors[of e supp "findMany st ParentProductT (\<lambda>object. True)" st zeroCounters entries] f
  have "errorDetails cnt = concat (map (entryErrors e) entries)" by (simp add: zeroCounters_def)
  with f assms show ?thesis by (simp add: syncSupplier_def)
qed




text \<open>Rules that evaluate the definitions on the example documents.\<close>

lemmas str_eval = includesStr_def startsWith_def sublist_Cons_right prefix_Cons trim_def isSpace_def
  fileNameCode_def char_of_eq_iff truthy_def orElse_def orEmpty_def

lemmas doc_eval = exThreeChildren_def exBareChild_def exNoDocumentsEnv_def exChild_def exLang_def
  exField_def exDoc_def exEnv_def exImportTxt_def exUrl_def
  exSupplier_def emptyState_def exChildren_def exChildWithImage_def exStoredParent_def
  exCategory_def exStoredCategory_def exA73Child_def exA73Url_def exA73Doc_def exA73Env_def

lemmas field_eval = uiColorCode_def langDetails_def langColorCode_def langConfigFields_def
  colorCodeFound_def extractColorCodeForGrouping_def firstLangSku_def nonLangSku_def explicitSku_def
  extractVariantSku_def supplierColorCodeOf_def sizeCodeOf_def parseConfigurationFields_def
  configNameTranslated_def nameSatisfies_def isColorName_def isSizeName_def toLowerCase_def
  toLowerChar_def languagePriority_def remainingLangs_def extractedSize_def langSize_def
  matchA461_def digits1_def isDigit_def isAlnum_def configColorFor_def colorRegexTest_def
  groupingFieldName_def

lemmas group_eval = variantsByColorCode_def groupBy_def forInOrder_def isArrayIndex_def natOfDigits_def
  extractSizesForColor_def sizesStep_def setAdd_def

lemmas store_eval = findMany_def fieldIs_def createEntity_def updateEntity_def assign_def omit_def
  isEqual_def strOrNull_def idOrNull_def stringsOrNull_def variantFilter_def

lemmas sync_eval = syncSupplier_def parseProductUrlsWithHashes_def fetchImportTxt_def parseLine_def
  processProduct_def countSkipped_def countParent_def countVariant_def pushError_def mapGet_def
  storedHashOf_def zeroCounters_def createOrUpdateParentProduct_def parentDataOf_def parentSkuOf_def
  productDataOf_def supplierNameByANumber_def nonLangBrand_def nonLangCategory_def
  extractProductCode_def createOrUpdateProductVariant_def variantDataOf_def
  collectEmbroiderySize_id a73EmbroiderySizesFor_None isBLSalesOf_False isA73_def
  primaryImageOf_def galleryImagesOf_def informationFilesOf_def imagesWithUrl_def imageOf_def
  langsOf_def extractNameWithPriority_def langName_def extractEmbroiderySizes_def
  isServiceBaseVariant_def uploadImageFromUrl_def Let_def


lemma find_id:
  "r \<in> set rs \<Longrightarrow> \<exists>r0. find (\<lambda>x. fst x = fst r) rs = Some r0 \<and> fst r0 = fst r \<and> r0 \<in> set rs"
  by (induction rs) auto

lemma findMany_mem: "findMany st t f = r # rs \<Longrightarrow> r \<in> set (rows st t)"
proof -
  assume "findMany st t f = r # rs"
  then have "r \<in> set (filter (\<lambda>x. f (snd x)) (rows st t))" by (simp add: findMany_def)
  then show ?thesis by simp
qed

lemma updateEntity_found:
  assumes "r \<in> set (rows st t)"
  shows "\<exists>r0. r0 \<in> set (rows st t) \<and> fst r0 = fst r
     \<and> fst (updateEntity st t (fst r) d) = (fst r, assign (snd r0) d)
     \<and> writes (snd (updateEntity st t (fst r) d)) = writes st @ [Updated t (fst r)]
     \<and> fst (updateEntity st t (fst r) d) \<in> set (rows (snd (updateEntity st t (fst r) d)) t)"
proof -
  from find_id[OF assms] obtain r0 where
    f: "find (\<lambda>x. fst x = fst r) (rows st t) = Some r0" and i: "fst r0 = fst r" and m: "r0 \<in> set (rows st t)"
    by blast
  have "(fst r, snd r0) \<in> set (rows st t)" using m i by (metis prod.collapse)
  with f i m show ?thesis by (auto simp: updateEntity_def)
qed

lemma createEntity_simps:
  "fst (createEntity st t d) = (nextId st, d)"
  "writes (snd (createEntity st t d)) = writes st @ [Created t (nextId st)]"
  "rows (snd (createEntity st t d)) t = rows st t @ [(nextId st, d)]"
  by (simp_all add: createEntity_def)

lemma category_upsert:
  "(findMany st CategoryT (fieldIs ''code'' (JStr (cat_code cd))) = [] \<longrightarrow>
      fst (createOrUpdateCategory st cd) = (nextId st, categoryDataOf st cd)
      \<and> writes (snd (createOrUpdateCategory st cd)) = writes st @ [Created CategoryT (nextId st)])
   \<and> (findMany st CategoryT (fieldIs ''code'' (JStr (cat_code cd))) = r # rs \<longrightarrow>
      fst (fst (createOrUpdateCategory st cd)) = fst r
      \<and> writes (snd (createOrUpdateCategory st cd)) = writes st @ [Updated CategoryT (fst r)])"
proof (intro conjI impI)
  assume "findMany st CategoryT (fieldIs ''code'' (JStr (cat_code cd))) = []"
  then show "fst (createOrUpdateCategory st cd) = (nextId st, categoryDataOf st cd)"
    "writes (snd (createOrUpdateCategory st cd)) = writes st @ [Created CategoryT (nextId st)]"
    by (simp_all add: createOrUpdateCategory_def createEntity_simps)
next
  assume a: "findMany st CategoryT (fieldIs ''code'' (JStr (cat_code cd))) = r # rs"
  from updateEntity_found[OF findMany_mem[OF a], of "categoryDataOf st cd"] a
  show "fst (fst (createOrUpdateCategory st cd)) = fst r"
    "writes (snd (createOrUpdateCategory st cd)) = writes st @ [Updated CategoryT (fst r)]"
    by (auto simp: createOrUpdateCategory_def)
qed

lemma supplier_upsert:
  "(findMany st SupplierT (fieldIs ''code'' (JStr (sd_code sd))) = [] \<longrightarrow>
      fst (createOrUpdateSupplier st sd) = (nextId st, supplierDataOf sd)
      \<and> writes (snd (createOrUpdateSupplier st sd)) = writes st @ [Created SupplierT (nextId st)])
   \<and> (findMany st SupplierT (fieldIs ''code'' (JStr (sd_code sd))) = r # rs \<longrightarrow>
      fst (fst (createOrUpdateSupplier st sd)) = fst r
      \<and> writes (snd (createOrUpdateSupplier st sd)) = writes st @ [Updated SupplierT (fst r)])"
proof (intro conjI impI)
  assume "findMany st SupplierT (fieldIs ''code'' (JStr (sd_code sd))) = []"
  then show "fst (createOrUpdateSupplier st sd) = (nextId st, supplierDataOf sd)"
    "writes (snd (createOrUpdateSupplier st sd)) = writes st @ [Created SupplierT (nextId st)]"
    by (simp_all add: createOrUpdateSupplier_def createEntity_simps)
next
  assume a: "findMany st SupplierT (fieldIs ''code'' (JStr (sd_code sd))) = r # rs"
  from updateEntity_found[OF findMany_mem[OF a], of "supplierDataOf sd"] a
  show "fst (fst (createOrUpdateSupplier st sd)) = fst r"
    "writes (snd (createOrUpdateSupplier st sd)) = writes st @ [Updated SupplierT (fst r)]"
    by (auto simp: createOrUpdateSupplier_def)
qed

lemma updateEntity_writes_prefix: "prefix (writes st) (writes (snd (updateEntity st t i d)))"
  by (simp add: updateEntity_def split: option.splits)

lemma parent_upsert:
  assumes "extractProductCode d u = Some code"
  shows "(findMany st ParentProductT (fieldIs ''sku'' (JStr (parentSkuOf d code))) = [] \<longrightarrow>
      (\<exists>res st'. createOrUpdateParentProduct e st d supp h u = (Inr res, st')
         \<and> pr_created res \<and> parentProduct res = (nextId st, parentDataOf e st d supp h code)
         \<and> prefix (writes st @ [Created ParentProductT (nextId st)]) (writes st')))
   \<and> (findMany st ParentProductT (fieldIs ''sku'' (JStr (parentSkuOf d code))) = r # rs \<longrightarrow>
      (\<exists>res st'. createOrUpdateParentProduct e st d supp h u = (Inr res, st')
         \<and> \<not> pr_created res \<and> fst (parentProduct res) = fst r
         \<and> prefix (writes st @ [Updated ParentProductT (fst r)]) (writes st')))"
proof (intro conjI impI)
  assume a: "findMany st ParentProductT (fieldIs ''sku'' (JStr (parentSkuOf d code))) = []"
  let ?pd = "parentDataOf e st d supp h code"
  let ?st1 = "snd (createEntity st ParentProductT ?pd)"
  have w: "writes ?st1 = writes st @ [Created ParentProductT (nextId st)]" by (simp add: createEntity_simps)
  have p1: "prefix (writes st @ [Created ParentProductT (nextId st)]) (writes (snd (updateEntity ?st1 ProductT i x)))" for i x
    using updateEntity_writes_prefix[of ?st1 ProductT i x] unfolding w .
  have p2: "prefix (writes st @ [Created ParentProductT (nextId st)]) (writes (snd (createEntity ?st1 ProductT x)))" for x
    using w by (simp add: createEntity_simps(2))
  show "\<exists>res st'. createOrUpdateParentProduct e st d supp h u = (Inr res, st')
         \<and> pr_created res \<and> parentProduct res = (nextId st, ?pd)
         \<and> prefix (writes st @ [Created ParentProductT (nextId st)]) (writes st')"
    unfolding createOrUpdateParentProduct_def assms option.case Let_def a list.case split_beta
    using p1 p2 by (simp add: createEntity_simps(1) split: list.splits)
next
  assume a: "findMany st ParentProductT (fieldIs ''sku'' (JStr (parentSkuOf d code))) = r # rs"
  let ?pd = "parentDataOf e st d supp h code"
  let ?st1 = "snd (updateEntity st ParentProductT (fst r) ?pd)"
  from updateEntity_found[OF findMany_mem[OF a], of ?pd]
  have w: "writes ?st1 = writes st @ [Updated ParentProductT (fst r)]"
    and i: "fst (fst (updateEntity st ParentProductT (fst r) ?pd)) = fst r" by auto
  have p1: "prefix (writes st @ [Updated ParentProductT (fst r)]) (writes (snd (updateEntity ?st1 ProductT i x)))" for i x
    using updateEntity_writes_prefix[of ?st1 ProductT i x] unfolding w .
  have p2: "prefix (writes st @ [Updated ParentProductT (fst r)]) (writes (snd (createEntity ?st1 ProductT x)))" for x
    using w by (simp add: createEntity_simps(2))
  show "\<exists>res st'. createOrUpdateParentProduct e st d supp h u = (Inr res, st')
         \<and> \<not> pr_created res \<and> fst (parentProduct res) = fst r
         \<and> prefix (writes st @ [Updated ParentProductT (fst r)]) (writes st')"
    unfolding createOrUpdateParentProduct_def assms option.case Let_def a list.case split_beta
    using p1 p2 i by (simp split: list.splits)
qed

lemma variant_upsert:
  assumes "extractVariantSku c p = Some sku"
  shows "(findMany st ProductVariantT (variantFilter sku pid) = [] \<longrightarrow>
      (\<exists>res st'. createOrUpdateProductVariant e st c pid p = (Inr res, st')
         \<and> created res \<and> \<not> updated res \<and> variantFilter sku pid (snd (productVariant res))))
   \<and> (findMany st ProductVariantT (variantFilter sku pid) = r # rs \<longrightarrow>
      (\<exists>res st'. createOrUpdateProductVariant e st c pid p = (Inr res, st')
         \<and> \<not> created res \<and> fst (productVariant res) = fst r))"
proof (intro conjI impI)
  assume a: "findMany st ProductVariantT (variantFilter sku pid) = []"
  have vf: "variantFilter sku pid (variantDataOf e s c pid p sku x y z)" for s x y z
    by (simp add: variantFilter_def fieldIs_def variantDataOf_def)
  show "\<exists>res st'. createOrUpdateProductVariant e st c pid p = (Inr res, st')
         \<and> created res \<and> \<not> updated res \<and> variantFilter sku pid (snd (productVariant res))"
    unfolding createOrUpdateProductVariant_def assms option.case collectEmbroiderySize_id Let_def a
      list.case split_beta
    using vf by (simp add: createEntity_simps(1))
next
  assume a: "findMany st ProductVariantT (variantFilter sku pid) = r # rs"
  have i: "fst (fst (updateEntity s ProductVariantT (fst r) x)) = fst r" for s x
    by (simp add: updateEntity_def split: option.splits)
  show "\<exists>res st'. createOrUpdateProductVariant e st c pid p = (Inr res, st')
         \<and> \<not> created res \<and> fst (productVariant res) = fst r"
    unfolding createOrUpdateProductVariant_def assms option.case collectEmbroiderySize_id Let_def a
      list.case split_beta
    using i by (simp add: variant_never_equal)
qed


lemma retry_result: "snd (retry f n d k) = Inr v \<Longrightarrow> \<exists>a. f a = Inr v"
proof (induction n arbitrary: d k)
  case 0
  then show ?case by (cases "f k") auto
next
  case (Suc n)
  show ?case
  proof (cases "f k")
    case (Inr x)
    with Suc.prems show ?thesis by auto
  next
    case (Inl err)
    with Suc.prems have "snd (retry f n (d * 2) (Suc k)) = Inr v" by (simp add: split_beta)
    from Suc.IH[OF this] show ?thesis .
  qed
qed

lemma upload_rows:
  assumes "t \<noteq> FileT"
  shows "rows (snd (uploadImageFromUrl e st u fn ofn)) t = rows st t"
proof (cases "download e u")
  case (NotOk m)
  then show ?thesis by (simp add: upload_download_fails)
next
  case (Ok h)
  let ?ct = "if truthy h then orEmpty h else ''image/jpeg''"
  let ?name = "fn @ ''.'' @ imageExtension ?ct u"
  let ?f = "\<lambda>attempt. if fileCreate e ?name attempt
               then Inr (createEntity st FileT (fileData e ?name (imageExtension ?ct u) ?ct u ofn))
               else Inl (Error ''create failed'')"
  show ?thesis
  proof (cases "r2Put e ?name")
    case False
    with Ok show ?thesis by (simp add: upload_put_fails)
  next
    case True
    show ?thesis
    proof (cases "snd (retry ?f 3 1000 0)")
      case (Inl err)
      then show ?thesis
        unfolding uploadImageFromUrl_def Let_def
        using Ok True by (simp split del: if_split)
    next
      case (Inr v)
      from retry_result[OF Inr] obtain a where "?f a = Inr v" by blast
      then have v: "v = createEntity st FileT (fileData e ?name (imageExtension ?ct u) ?ct u ofn)"
        by (simp split: if_splits)
      have "rows (snd v) t = rows st t" unfolding v using assms by (simp add: createEntity_def)
      then show ?thesis
        unfolding uploadImageFromUrl_def Let_def
        using Ok True Inr by (simp split del: if_split add: split_beta)
    qed
  qed
qed

lemma uploadMany_rows:
  "t \<noteq> FileT \<Longrightarrow> rows (snd (uploadMany e pre imgs i st ids)) t = rows st t"
proof (induction imgs arbitrary: i st ids)
  case Nil
  show ?case by simp
next
  case (Cons img imgs)
  show ?case
    using Cons.IH[OF Cons.prems] upload_rows[OF Cons.prems]
    by (simp add: split_beta)
qed

lemma updateEntity_mem:
  "r \<in> set (rows st t) \<Longrightarrow>
     fst (updateEntity st t (fst r) d) \<in> set (rows (snd (updateEntity st t (fst r) d)) t)"
  using updateEntity_found[of r st t d] by auto

lemma updateEntity_field:
  assumes "r \<in> set (rows st t)" "map_of (rev d) k = Some v"
  shows "fieldIs k v (snd (fst (updateEntity st t (fst r) d)))"
proof -
  from updateEntity_found[OF assms(1), of d] obtain r0 where
    "fst (updateEntity st t (fst r) d) = (fst r, assign (snd r0) d)" by auto
  then show ?thesis by (simp add: fieldIs_def assign_map_of assms(2))
qed

lemma variant_null_image:
  assumes sku: "extractVariantSku c p = Some sku"
    and img: "primaryImageOf c = Some img"
    and up: "uploadImageFromUrl e st (fst img) (sku @ ''-primary'') (snd img) = (None, st)"
  shows "\<exists>res st'. createOrUpdateProductVariant e st c pid p = (Inr res, st')
     \<and> (created res \<or> updated res)
     \<and> fieldIs ''primary_image'' JNull (snd (productVariant res))
     \<and> productVariant res \<in> set (rows st' ProductVariantT)"
proof -
  let ?g = "uploadMany e (sku @ ''-gallery-'') (galleryImagesOf c) 0 st []"
  let ?f = "uploadMany e (sku @ ''-info-file-'') (informationFilesOf c) 0 (snd ?g) []"
  let ?st4 = "snd ?f"
  let ?vd = "variantDataOf e ?st4 c pid p sku None (fst ?g) (fst ?f)"
  have r4: "rows ?st4 ProductVariantT = rows st ProductVariantT"
    by (simp add: uploadMany_rows)
  have pi: "fieldIs ''primary_image'' JNull ?vd"
    by (simp add: fieldIs_def variantDataOf_def idOrNull_def)
  have pr: "map_of (rev ?vd) ''primary_image'' = Some JNull"
    by (simp add: variantDataOf_def idOrNull_def)
  show ?thesis
  proof (cases "findMany st ProductVariantT (variantFilter sku pid)")
    case Nil
    show ?thesis
      unfolding createOrUpdateProductVariant_def sku option.case collectEmbroiderySize_id Let_def
        Nil list.case split_beta img up
      using pi by (simp add: createEntity_def)
  next
    case (Cons r rs)
    from findMany_mem[OF Cons] r4 have "r \<in> set (rows ?st4 ProductVariantT)" by simp
    note rin = this
    have mem: "fst (updateEntity ?st4 ProductVariantT (fst r) ?vd)
                  \<in> set (rows (snd (updateEntity ?st4 ProductVariantT (fst r) ?vd)) ProductVariantT)"
      using rin by (rule updateEntity_mem)
    have fld: "fieldIs ''primary_image'' JNull (snd (fst (updateEntity ?st4 ProductVariantT (fst r) ?vd)))"
      using rin pr by (rule updateEntity_field)
    from mem fld show ?thesis
      unfolding createOrUpdateProductVariant_def sku option.case collectEmbroiderySize_id Let_def
        Cons list.case split_beta img up
      by (simp add: variant_never_equal)
  qed
qed

section \<open>Properties of a run\<close>

lemmas all_eval = sync_eval store_eval group_eval field_eval doc_eval str_eval

lemma char_eq_char_of_iff: "c = char_of (n::nat) \<longleftrightarrow> take_bit 8 n = (of_char c :: nat)"
  using char_of_eq_iff[of n c] by auto

lemmas all_eval_sym = all_eval char_eq_char_of_iff

lemma parse_images_irrelevant:
  "parseProductUrlsWithHashes (e\<lparr>download := dl, r2Put := pt, fileCreate := fc\<rparr>) code
     = parseProductUrlsWithHashes e code"
  by (simp add: parseProductUrlsWithHashes_def fetchImportTxt_def)

lemma entryErrors_images_irrelevant:
  "entryErrors (e\<lparr>download := dl, r2Put := pt, fileCreate := fc\<rparr>) entry = entryErrors e entry"
  by (simp add: entryErrors_def)

text \<open>
  Claim C1. A manifest entry whose hash equals the stored \<^verbatim>\<open>promidata_hash\<close> of the parent
  product is counted as skipped and logged as skipped, and the updatable fields of the stored
  parent are then to stay as they are. In the run below the manifest has the one entry of
  product A113-1 with hash H1, the store holds that parent with hash H1 and brand Old, and the
  document states the brand New. \<^verbatim>\<open>syncSupplier\<close> counts the parent as skipped and also as
  updated: it fetches the document and calls \<^verbatim>\<open>createOrUpdateParentProduct\<close>, which rewrites
  the stored row (brand and \<^verbatim>\<open>last_synced\<close> change, the hash stays).
\<close>

theorem unchanged_hash_parent_rewritten:
  "parseProductUrlsWithHashes (exEnv exImportTxt (exDoc ''New'' None)) ''A113''
     = Inr [\<lparr>url = exUrl, hash = ''H1''\<rparr>]
   \<and> map snd (rows exStoredParent ParentProductT)
       = [[(''sku'', JStr ''A113-1''), (''brand'', JStr ''Old''), (''promidata_hash'', JStr ''H1''),
           (''last_synced'', JStr ''t0'')]]
   \<and> fst (syncSupplier (exEnv exImportTxt (exDoc ''New'' None)) exStoredParent exSupplier)
       = Inr (Completed \<lparr>importedParentProducts = 0, updatedParentProducts = 1,
                skippedParentProducts = 1, importedVariants = 0, updatedVariants = 0,
                skippedVariants = 0, errorDetails = []\<rparr>)
   \<and> writes (snd (syncSupplier (exEnv exImportTxt (exDoc ''New'' None)) exStoredParent exSupplier))
       = [Updated ParentProductT 1, Created ProductT 2]
   \<and> map (\<lambda>r. (map_of (snd r) ''brand'', map_of (snd r) ''promidata_hash'', map_of (snd r) ''last_synced''))
         (rows (snd (syncSupplier (exEnv exImportTxt (exDoc ''New'' None)) exStoredParent exSupplier))
            ParentProductT)
       = [(Some (JStr ''New''), Some (JStr ''H1''), Some (JStr ''t1''))]"
  by (simp add: all_eval)

text \<open>
  Claim C2. Two runs of \<^verbatim>\<open>syncSupplier\<close> over the same manifest and the same document, from
  the empty store. The first run creates the parent and the one variant of colour 990. The
  second run reports the parent as skipped and as updated, and the variant as updated, with no
  error: the unchanged hash does not keep the parent upsert from running, and the variant
  comparison leaves \<^verbatim>\<open>parent_product\<close> in the new data while it removes it from the stored
  data, so the two never compare equal.
\<close>

theorem second_run_reports_updates:
  "fst (syncSupplier (exEnv exImportTxt (exDoc ''B'' (Some exChildren))) emptyState exSupplier)
     = Inr (Completed \<lparr>importedParentProducts = 1, updatedParentProducts = 0,
              skippedParentProducts = 0, importedVariants = 1, updatedVariants = 0,
              skippedVariants = 0, errorDetails = []\<rparr>)
   \<and> fst (syncSupplier (exEnv exImportTxt (exDoc ''B'' (Some exChildren)))
            (snd (syncSupplier (exEnv exImportTxt (exDoc ''B'' (Some exChildren))) emptyState exSupplier))
            exSupplier)
     = Inr (Completed \<lparr>importedParentProducts = 0, updatedParentProducts = 1,
              skippedParentProducts = 1, importedVariants = 0, updatedVariants = 1,
              skippedVariants = 0, errorDetails = []\<rparr>)"
  by (simp add: all_eval)

text \<open>
  Claim C7. For supplier A73 the option SKUs (BOR) of a colour are to be rolled up into the
  \<^verbatim>\<open>embroidery_sizes\<close> of the sales SKU (BLSales), which becomes the primary variant.
  \<^verbatim>\<open>createOrUpdateProductVariant\<close> tests the two patterns on \<^verbatim>\<open>variantSku\<close> while that
  variable still holds \<^verbatim>\<open>null\<close>, so neither test ever succeeds: no size is collected from the
  option SKU, the variant that is persisted is the first child of the colour whichever SKU it has,
  and its \<^verbatim>\<open>embroidery_sizes\<close> is \<^verbatim>\<open>null\<close>, also when the sales SKU comes first.
\<close>

theorem a73_sales_sku_not_rolled_up:
  "map (\<lambda>r. (map_of (snd r) ''sku'', map_of (snd r) ''embroidery_sizes'',
              map_of (snd r) ''is_service_base'', map_of (snd r) ''is_primary_for_color''))
      (rows (snd (syncSupplier
                    (exA73Env [exA73Child ''A73-100-BOR6X4'', exA73Child ''A73-100-BLSales''])
                    emptyState \<lparr>sup_id = 7, sup_code = ''A73''\<rparr>)) ProductVariantT)
     = [(Some (JStr ''A73-100-BOR6X4''), Some JNull, Some (JBool False), Some (JBool True))]
   \<and> map (\<lambda>r. (map_of (snd r) ''sku'', map_of (snd r) ''embroidery_sizes'',
              map_of (snd r) ''is_service_base'', map_of (snd r) ''is_primary_for_color''))
      (rows (snd (syncSupplier
                    (exA73Env [exA73Child ''A73-100-BLSales'', exA73Child ''A73-100-BOR6X4''])
                    emptyState \<lparr>sup_id = 7, sup_code = ''A73''\<rparr>)) ProductVariantT)
     = [(Some (JStr ''A73-100-BLSales''), Some JNull, Some (JBool False), Some (JBool True))]
   \<and> a73EmbroiderySizes
        (snd (createOrUpdateProductVariant (exA73Env []) emptyState
                (exA73Child ''A73-100-BOR6X4'') 1 ''A73-100'')) = None"
  by (simp add: all_eval)



text \<open>
  Claim C3. Every upsert looks its record up by the natural key: a category and a supplier by
  \<^verbatim>\<open>code\<close>, a parent product by \<^verbatim>\<open>sku\<close>, a variant by \<^verbatim>\<open>sku\<close> and \<^verbatim>\<open>parent_product\<close>.
  When no record has the key, the record is created from the new data. When a record has it, the
  first one found is the record of the result and no record is created;
  \<^verbatim>\<open>createOrUpdateCategory\<close>, \<^verbatim>\<open>createOrUpdateSupplier\<close> and
  \<^verbatim>\<open>createOrUpdateParentProduct\<close> then write the update without comparing anything. Only
  \<^verbatim>\<open>createOrUpdateProductVariant\<close> has a comparison.
\<close>

theorem upsert_by_natural_key:
  "((findMany st CategoryT (fieldIs ''code'' (JStr (cat_code cd))) = [] \<longrightarrow>
      fst (createOrUpdateCategory st cd) = (nextId st, categoryDataOf st cd)
      \<and> writes (snd (createOrUpdateCategory st cd)) = writes st @ [Created CategoryT (nextId st)])
   \<and> (findMany st CategoryT (fieldIs ''code'' (JStr (cat_code cd))) = rc # rcs \<longrightarrow>
      fst (fst (createOrUpdateCategory st cd)) = fst rc
      \<and> writes (snd (createOrUpdateCategory st cd)) = writes st @ [Updated CategoryT (fst rc)]))
   \<and> ((findMany st SupplierT (fieldIs ''code'' (JStr (sd_code sd))) = [] \<longrightarrow>
      fst (createOrUpdateSupplier st sd) = (nextId st, supplierDataOf sd)
      \<and> writes (snd (createOrUpdateSupplier st sd)) = writes st @ [Created SupplierT (nextId st)])
   \<and> (findMany st SupplierT (fieldIs ''code'' (JStr (sd_code sd))) = rs # rss \<longrightarrow>
      fst (fst (createOrUpdateSupplier st sd)) = fst rs
      \<and> writes (snd (createOrUpdateSupplier st sd)) = writes st @ [Updated SupplierT (fst rs)]))
   \<and> (extractProductCode d u = Some code \<longrightarrow>
       (findMany st ParentProductT (fieldIs ''sku'' (JStr (parentSkuOf d code))) = [] \<longrightarrow>
          (\<exists>res st'. createOrUpdateParentProduct e st d supp h u = (Inr res, st')
             \<and> pr_created res \<and> parentProduct res = (nextId st, parentDataOf e st d supp h code)
             \<and> prefix (writes st @ [Created ParentProductT (nextId st)]) (writes st')))
       \<and> (findMany st ParentProductT (fieldIs ''sku'' (JStr (parentSkuOf d code))) = rp # rps \<longrightarrow>
          (\<exists>res st'. createOrUpdateParentProduct e st d supp h u = (Inr res, st')
             \<and> \<not> pr_created res \<and> fst (parentProduct res) = fst rp
             \<and> prefix (writes st @ [Updated ParentProductT (fst rp)]) (writes st'))))
   \<and> (extractVariantSku c p = Some sku \<longrightarrow>
       (findMany st ProductVariantT (variantFilter sku pid) = [] \<longrightarrow>
          (\<exists>res st'. createOrUpdateProductVariant e st c pid p = (Inr res, st')
             \<and> created res \<and> \<not> updated res \<and> variantFilter sku pid (snd (productVariant res))))
       \<and> (findMany st ProductVariantT (variantFilter sku pid) = rv # rvs \<longrightarrow>
          (\<exists>res st'. createOrUpdateProductVariant e st c pid p = (Inr res, st')
             \<and> \<not> created res \<and> fst (productVariant res) = fst rv)))"
proof -
  note a = category_upsert[of st cd rc rcs]
  note b = supplier_upsert[of st sd rs rss]
  have c: "extractProductCode d u = Some code \<longrightarrow>
       (findMany st ParentProductT (fieldIs ''sku'' (JStr (parentSkuOf d code))) = [] \<longrightarrow>
          (\<exists>res st'. createOrUpdateParentProduct e st d supp h u = (Inr res, st')
             \<and> pr_created res \<and> parentProduct res = (nextId st, parentDataOf e st d supp h code)
             \<and> prefix (writes st @ [Created ParentProductT (nextId st)]) (writes st')))
       \<and> (findMany st ParentProductT (fieldIs ''sku'' (JStr (parentSkuOf d code))) = rp # rps \<longrightarrow>
          (\<exists>res st'. createOrUpdateParentProduct e st d supp h u = (Inr res, st')
             \<and> \<not> pr_created res \<and> fst (parentProduct res) = fst rp
             \<and> prefix (writes st @ [Updated ParentProductT (fst rp)]) (writes st')))"
    by (rule impI, rule parent_upsert, assumption)
  have d: "extractVariantSku c p = Some sku \<longrightarrow>
       (findMany st ProductVariantT (variantFilter sku pid) = [] \<longrightarrow>
          (\<exists>res st'. createOrUpdateProductVariant e st c pid p = (Inr res, st')
             \<and> created res \<and> \<not> updated res \<and> variantFilter sku pid (snd (productVariant res))))
       \<and> (findMany st ProductVariantT (variantFilter sku pid) = rv # rvs \<longrightarrow>
          (\<exists>res st'. createOrUpdateProductVariant e st c pid p = (Inr res, st')
             \<and> \<not> created res \<and> fst (productVariant res) = fst rv))"
    by (rule impI, rule variant_upsert, assumption)
  show ?thesis by (rule conjI[OF a conjI[OF b conjI[OF c d]]])
qed

text \<open>The stored category C1 is updated, supplier A113 is created in a store without suppliers,
  the stored parent A113-1 is updated, and its variant A113-1-M is created.\<close>

theorem upsert_by_natural_key_witness:
  "findMany exStoredCategory CategoryT (fieldIs ''code'' (JStr (cat_code exCategory)))
     = [(1, [(''code'', JStr ''C1''), (''name'', JObj [(''en'', JStr ''Shirts'')])])]
   \<and> writes (snd (createOrUpdateCategory exStoredCategory exCategory)) = [Updated CategoryT 1]
   \<and> fst (createOrUpdateSupplier exStoredCategory \<lparr>sd_code = ''A113'', sd_name = None\<rparr>)
       = (2, [(''code'', JStr ''A113''), (''name'', JStr ''A113'')])
   \<and> writes (snd (createOrUpdateSupplier exStoredCategory \<lparr>sd_code = ''A113'', sd_name = None\<rparr>))
       = [Created SupplierT 2]
   \<and> (\<exists>res st'. createOrUpdateParentProduct (exEnv exImportTxt (exDoc ''New'' None)) exStoredParent
                    (exDoc ''New'' None) exSupplier ''H1'' (Some exUrl) = (Inr res, st')
         \<and> \<not> pr_created res \<and> fst (parentProduct res) = 1
         \<and> prefix [Updated ParentProductT 1] (writes st'))
   \<and> (\<exists>res st'. createOrUpdateProductVariant (exEnv exImportTxt (exDoc ''New'' None)) exStoredParent
                    (exChild ''A113-1-M'' ''990'' ''M'') 1 ''A113-1'' = (Inr res, st')
         \<and> created res \<and> \<not> updated res
         \<and> variantFilter ''A113-1-M'' 1 (snd (productVariant res)))"
proof -
  note t1 = upsert_by_natural_key[where st = exStoredCategory and cd = exCategory
      and rc = "(1, [(''code'', JStr ''C1''), (''name'', JObj [(''en'', JStr ''Shirts'')])])"
      and rcs = "[]" and sd = "\<lparr>sd_code = ''A113'', sd_name = None\<rparr>"]
  note t2 = upsert_by_natural_key[where st = exStoredParent and d = "exDoc ''New'' None"
      and u = "Some exUrl" and code = "''A113-1''"
      and rp = "(1, [(''sku'', JStr ''A113-1''), (''brand'', JStr ''Old''),
                     (''promidata_hash'', JStr ''H1''), (''last_synced'', JStr ''t0'')])"
      and rps = "[]" and e = "exEnv exImportTxt (exDoc ''New'' None)" and supp = exSupplier
      and h = "''H1''" and c = "exChild ''A113-1-M'' ''990'' ''M''" and p = "''A113-1''"
      and sku = "''A113-1-M''" and pid = 1]
  have h1: "findMany exStoredCategory CategoryT (fieldIs ''code'' (JStr (cat_code exCategory)))
     = [(1, [(''code'', JStr ''C1''), (''name'', JObj [(''en'', JStr ''Shirts'')])])]"
    by (simp add: all_eval_sym)
  have h2: "findMany exStoredCategory SupplierT
              (fieldIs ''code'' (JStr (sd_code \<lparr>sd_code = ''A113'', sd_name = None\<rparr>))) = []"
    by (simp add: all_eval_sym)
  have h3: "extractProductCode (exDoc ''New'' None) (Some exUrl) = Some ''A113-1''"
    by (simp add: all_eval_sym)
  have h4: "findMany exStoredParent ParentProductT
              (fieldIs ''sku'' (JStr (parentSkuOf (exDoc ''New'' None) ''A113-1'')))
     = [(1, [(''sku'', JStr ''A113-1''), (''brand'', JStr ''Old''),
             (''promidata_hash'', JStr ''H1''), (''last_synced'', JStr ''t0'')])]"
    by (simp add: all_eval_sym)
  have h5: "extractVariantSku (exChild ''A113-1-M'' ''990'' ''M'') ''A113-1'' = Some ''A113-1-M''"
    by (simp add: all_eval_sym)
  have h6: "findMany exStoredParent ProductVariantT (variantFilter ''A113-1-M'' 1) = []"
    by (simp add: all_eval_sym)
  have w: "writes exStoredCategory = []" "nextId exStoredCategory = 2" "writes exStoredParent = []"
    by (simp_all add: all_eval_sym)
  have s: "supplierDataOf \<lparr>sd_code = ''A113'', sd_name = None\<rparr>
             = [(''code'', JStr ''A113''), (''name'', JStr ''A113'')]"
    by (simp add: supplierDataOf_def truthy_def)
  have c1: "writes (snd (createOrUpdateCategory exStoredCategory exCategory)) = [Updated CategoryT 1]"
    using t1 h1 w by simp
  have c2: "fst (createOrUpdateSupplier exStoredCategory \<lparr>sd_code = ''A113'', sd_name = None\<rparr>)
       = (2, [(''code'', JStr ''A113''), (''name'', JStr ''A113'')])
    \<and> writes (snd (createOrUpdateSupplier exStoredCategory \<lparr>sd_code = ''A113'', sd_name = None\<rparr>))
       = [Created SupplierT 2]"
    using t1 h2 w s by simp
  have c3: "\<exists>res st'. createOrUpdateParentProduct (exEnv exImportTxt (exDoc ''New'' None)) exStoredParent
                    (exDoc ''New'' None) exSupplier ''H1'' (Some exUrl) = (Inr res, st')
         \<and> \<not> pr_created res \<and> fst (parentProduct res) = 1
         \<and> prefix [Updated ParentProductT 1] (writes st')"
    using t2 h3 h4 w by simp
  have c4: "\<exists>res st'. createOrUpdateProductVariant (exEnv exImportTxt (exDoc ''New'' None)) exStoredParent
                    (exChild ''A113-1-M'' ''990'' ''M'') 1 ''A113-1'' = (Inr res, st')
         \<and> created res \<and> \<not> updated res
         \<and> variantFilter ''A113-1-M'' 1 (snd (productVariant res))"
    using t2 h5 h6 by simp
  from h1 c1 c2 c3 c4 show ?thesis by (intro conjI) simp_all
qed

text \<open>A stored category whose data equal the new data: \<^verbatim>\<open>createOrUpdateCategory\<close> issues the
  update all the same, and the rows stay what they were.\<close>

theorem category_upsert_always_writes:
  "map snd (rows exStoredCategory CategoryT) = [categoryDataOf exStoredCategory exCategory]
   \<and> writes (snd (createOrUpdateCategory exStoredCategory exCategory)) = [Updated CategoryT 1]
   \<and> rows (snd (createOrUpdateCategory exStoredCategory exCategory)) CategoryT
       = rows exStoredCategory CategoryT"
  by (simp add: createOrUpdateCategory_def categoryDataOf_def all_eval_sym)

text \<open>
  Claim C6. When the transport answers the manifest request with a failure, \<^verbatim>\<open>fetch\<close> inside
  \<^verbatim>\<open>parseProductUrlsWithHashes\<close> raises \<^verbatim>\<open>Failed to fetch Import.txt\<close> with the status text;
  the \<^verbatim>\<open>catch\<close> block of the same function logs it and returns the empty list, so the
  function returns a list for every environment. \<^verbatim>\<open>syncSupplier\<close> then returns the message
  \<^verbatim>\<open>No products available for this supplier\<close> and leaves the store as it was. No failure of
  the transport or of a product ends a run: \<^verbatim>\<open>syncSupplier\<close> always returns, and over a
  manifest with entries its error list is the concatenation of the errors of the entries.
\<close>

theorem manifest_failure_yields_no_products:
  "(manifest e = NotOk t \<longrightarrow>
      fetchImportTxt e = Inl (Error (''Failed to fetch Import.txt: '' @ t))
      \<and> parseProductUrlsWithHashes e code = Inr []
      \<and> syncSupplier e st supp = (Inr (NoProducts ''No products available for this supplier''), st))
   \<and> (\<exists>entries. parseProductUrlsWithHashes e code = Inr entries)
   \<and> (\<exists>r st'. syncSupplier e st supp = (Inr r, st'))
   \<and> (\<forall>entries. parseProductUrlsWithHashes e (sup_code supp) = Inr entries \<and> entries \<noteq> [] \<longrightarrow>
        (\<exists>cnt st'. syncSupplier e st supp = (Inr (Completed cnt), st')
           \<and> errorDetails cnt = concat (map (entryErrors e) entries)))"
proof -
  have a: "manifest e = NotOk t \<longrightarrow>
      fetchImportTxt e = Inl (Error (''Failed to fetch Import.txt: '' @ t))
      \<and> parseProductUrlsWithHashes e code = Inr []
      \<and> syncSupplier e st supp = (Inr (NoProducts ''No products available for this supplier''), st)"
    by (simp add: fetchImportTxt_def parseProductUrlsWithHashes_def syncSupplier_def)
  have b: "\<exists>entries. parseProductUrlsWithHashes e code = Inr entries" by (rule parse_total)
  have d: "\<forall>entries. parseProductUrlsWithHashes e (sup_code supp) = Inr entries \<and> entries \<noteq> [] \<longrightarrow>
        (\<exists>cnt st'. syncSupplier e st supp = (Inr (Completed cnt), st')
           \<and> errorDetails cnt = concat (map (entryErrors e) entries))"
    using syncSupplier_cases[of e supp _ st] by blast
  have c: "\<exists>r st'. syncSupplier e st supp = (Inr r, st')"
  proof -
    from parse_total obtain entries where p: "parseProductUrlsWithHashes e (sup_code supp) = Inr entries"
      by blast
    show ?thesis using syncSupplier_cases[OF p, of st] by (cases "entries = []") auto
  qed
  from a b c d show ?thesis by (intro conjI)
qed

text \<open>A manifest answered with \<^verbatim>\<open>Bad Gateway\<close>, and a manifest of one product whose document
  is answered with \<^verbatim>\<open>Not Found\<close>: the run completes and lists the product.\<close>

theorem manifest_failure_yields_no_products_witness:
  "manifest (exEnv (NotOk ''Bad Gateway'') (exDoc ''B'' None)) = NotOk ''Bad Gateway''
   \<and> fetchImportTxt (exEnv (NotOk ''Bad Gateway'') (exDoc ''B'' None))
       = Inl (Error ''Failed to fetch Import.txt: Bad Gateway'')
   \<and> parseProductUrlsWithHashes (exEnv (NotOk ''Bad Gateway'') (exDoc ''B'' None)) ''A113'' = Inr []
   \<and> syncSupplier (exEnv (NotOk ''Bad Gateway'') (exDoc ''B'' None)) exStoredParent exSupplier
       = (Inr (NoProducts ''No products available for this supplier''), exStoredParent)
   \<and> parseProductUrlsWithHashes exNoDocumentsEnv (sup_code exSupplier)
       = Inr [\<lparr>url = exUrl, hash = ''H1''\<rparr>]
   \<and> (\<exists>cnt st'. syncSupplier exNoDocumentsEnv emptyState exSupplier = (Inr (Completed cnt), st')
         \<and> errorDetails cnt
             = [(''A113-1'', exUrl, ''Failed to fetch product from '' @ exUrl @ '': Not Found'')])"
proof -
  note t1 = manifest_failure_yields_no_products[where e = "exEnv (NotOk ''Bad Gateway'') (exDoc ''B'' None)"
      and t = "''Bad Gateway''" and code = "''A113''" and st = exStoredParent and supp = exSupplier]
  note t2 = manifest_failure_yields_no_products[where e = exNoDocumentsEnv and st = emptyState
      and supp = exSupplier]
  have m: "manifest (exEnv (NotOk ''Bad Gateway'') (exDoc ''B'' None)) = NotOk ''Bad Gateway''"
    by (simp add: exEnv_def)
  have p: "parseProductUrlsWithHashes exNoDocumentsEnv (sup_code exSupplier)
       = Inr [\<lparr>url = exUrl, hash = ''H1''\<rparr>]"
    by (simp add: all_eval_sym)
  have ee: "entryErrors exNoDocumentsEnv \<lparr>url = exUrl, hash = ''H1''\<rparr>
       = [(''A113-1'', exUrl, ''Failed to fetch product from '' @ exUrl @ '': Not Found'')]"
    by (simp add: entryErrors_def all_eval_sym)
  have c1: "fetchImportTxt (exEnv (NotOk ''Bad Gateway'') (exDoc ''B'' None))
       = Inl (Error ''Failed to fetch Import.txt: Bad Gateway'')
   \<and> parseProductUrlsWithHashes (exEnv (NotOk ''Bad Gateway'') (exDoc ''B'' None)) ''A113'' = Inr []
   \<and> syncSupplier (exEnv (NotOk ''Bad Gateway'') (exDoc ''B'' None)) exStoredParent exSupplier
       = (Inr (NoProducts ''No products available for this supplier''), exStoredParent)"
    using t1 m by simp
  have c2: "\<exists>cnt st'. syncSupplier exNoDocumentsEnv emptyState exSupplier = (Inr (Completed cnt), st')
         \<and> errorDetails cnt
             = [(''A113-1'', exUrl, ''Failed to fetch product from '' @ exUrl @ '': Not Found'')]"
    using t2 p ee by simp
  from m c1 p c2 show ?thesis by (intro conjI) simp_all
qed

text \<open>A manifest answered with \<^verbatim>\<open>Service Unavailable\<close>: the result is the empty product list,
  and the run returns normally.\<close>

theorem manifest_failure_swallowed:
  "manifest (exEnv (NotOk ''Service Unavailable'') (exDoc ''B'' None)) = NotOk ''Service Unavailable''
   \<and> parseProductUrlsWithHashes (exEnv (NotOk ''Service Unavailable'') (exDoc ''B'' None)) ''A113''
       = Inr []
   \<and> syncSupplier (exEnv (NotOk ''Service Unavailable'') (exDoc ''B'' None)) emptyState exSupplier
       = (Inr (NoProducts ''No products available for this supplier''), emptyState)"
  by (simp add: all_eval_sym)

text \<open>
  Claim C8. \<^verbatim>\<open>uploadImageFromUrl\<close> returns \<^verbatim>\<open>null\<close> and leaves the store as it was when the
  download fails, when the upload to the bucket fails, and when the creation of the media record
  fails on the first attempt and on the three retries; \<^verbatim>\<open>retry\<close> over a function that fails
  each time ends in the error after delays that double from the first one. A variant whose primary
  image comes back as \<^verbatim>\<open>null\<close> is created or updated, and the written record has
  \<^verbatim>\<open>primary_image\<close> \<^verbatim>\<open>null\<close>. A run always returns, and its error list does not depend on
  the outcome of any download, upload or media record creation.
\<close>

theorem image_failure_not_fatal:
  "(download e u = NotOk m \<longrightarrow> uploadImageFromUrl e st u fn ofn = (None, st))
   \<and> (download e u = Ok h
        \<and> \<not> r2Put e (fn @ ''.'' @ imageExtension (if truthy h then orEmpty h else ''image/jpeg'') u) \<longrightarrow>
        uploadImageFromUrl e st u fn ofn = (None, st))
   \<and> (download e u = Ok h
        \<and> (\<forall>a\<le>3. \<not> fileCreate e
               (fn @ ''.'' @ imageExtension (if truthy h then orEmpty h else ''image/jpeg'') u) a) \<longrightarrow>
        uploadImageFromUrl e st u fn ofn = (None, st))
   \<and> ((\<forall>a\<le>n. \<exists>err. f (k + a) = Inl err) \<longrightarrow>
        (\<exists>err. snd (retry f n dly k) = Inl err)
        \<and> fst (retry f n dly k) = map (\<lambda>i. dly * 2 ^ i) [0..<n])
   \<and> (extractVariantSku c p = Some sku \<and> primaryImageOf c = Some img
        \<and> uploadImageFromUrl e st (fst img) (sku @ ''-primary'') (snd img) = (None, st) \<longrightarrow>
        (\<exists>res st'. createOrUpdateProductVariant e st c pid p = (Inr res, st')
           \<and> (created res \<or> updated res)
           \<and> fieldIs ''primary_image'' JNull (snd (productVariant res))
           \<and> productVariant res \<in> set (rows st' ProductVariantT)))
   \<and> (\<exists>r st'. syncSupplier e st supp = (Inr r, st'))
   \<and> (syncSupplier e st supp = (Inr (Completed cnt), st1)
        \<and> syncSupplier (e\<lparr>download := dl, r2Put := pt, fileCreate := fc\<rparr>) st supp
            = (Inr (Completed cnt'), st2) \<longrightarrow>
        errorDetails cnt = errorDetails cnt')"
proof -
  have a: "download e u = NotOk m \<longrightarrow> uploadImageFromUrl e st u fn ofn = (None, st)"
    using upload_download_fails by blast
  have b: "download e u = Ok h
        \<and> \<not> r2Put e (fn @ ''.'' @ imageExtension (if truthy h then orEmpty h else ''image/jpeg'') u) \<longrightarrow>
        uploadImageFromUrl e st u fn ofn = (None, st)"
    using upload_put_fails by blast
  have c: "download e u = Ok h
        \<and> (\<forall>a\<le>3. \<not> fileCreate e
               (fn @ ''.'' @ imageExtension (if truthy h then orEmpty h else ''image/jpeg'') u) a) \<longrightarrow>
        uploadImageFromUrl e st u fn ofn = (None, st)"
    using upload_create_fails[of e u h fn st ofn] by blast
  have d: "(\<forall>a\<le>n. \<exists>err. f (k + a) = Inl err) \<longrightarrow>
        (\<exists>err. snd (retry f n dly k) = Inl err)
        \<and> fst (retry f n dly k) = map (\<lambda>i. dly * 2 ^ i) [0..<n]"
    using retry_all_fail[of n f k dly] by blast
  have v: "extractVariantSku c p = Some sku \<and> primaryImageOf c = Some img
        \<and> uploadImageFromUrl e st (fst img) (sku @ ''-primary'') (snd img) = (None, st) \<longrightarrow>
        (\<exists>res st'. createOrUpdateProductVariant e st c pid p = (Inr res, st')
           \<and> (created res \<or> updated res)
           \<and> fieldIs ''primary_image'' JNull (snd (productVariant res))
           \<and> productVariant res \<in> set (rows st' ProductVariantT))"
    using variant_null_image[of c p sku img e st pid] by blast
  have r: "\<exists>r st'. syncSupplier e st supp = (Inr r, st')"
  proof -
    from parse_total obtain entries where p: "parseProductUrlsWithHashes e (sup_code supp) = Inr entries"
      by blast
    show ?thesis using syncSupplier_cases[OF p, of st] by (cases "entries = []") auto
  qed
  have i: "syncSupplier e st supp = (Inr (Completed cnt), st1)
        \<and> syncSupplier (e\<lparr>download := dl, r2Put := pt, fileCreate := fc\<rparr>) st supp
            = (Inr (Completed cnt'), st2) \<longrightarrow>
        errorDetails cnt = errorDetails cnt'"
  proof (intro impI, elim conjE)
    let ?e' = "e\<lparr>download := dl, r2Put := pt, fileCreate := fc\<rparr>"
    assume s1: "syncSupplier e st supp = (Inr (Completed cnt), st1)"
      and s2: "syncSupplier ?e' st supp = (Inr (Completed cnt'), st2)"
    from parse_total obtain entries where p: "parseProductUrlsWithHashes e (sup_code supp) = Inr entries"
      by blast
    then have p': "parseProductUrlsWithHashes ?e' (sup_code supp) = Inr entries"
      by (simp add: parse_images_irrelevant)
    have ne: "entries \<noteq> []"
      using syncSupplier_cases[OF p, of st] s1 by auto
    from syncSupplier_cases[OF p, of st] ne s1
    have e1: "errorDetails cnt = concat (map (entryErrors e) entries)" by auto
    from syncSupplier_cases[OF p', of st] ne s2
    have e2: "errorDetails cnt' = concat (map (entryErrors ?e') entries)" by auto
    have "map (entryErrors ?e') entries = map (entryErrors e) entries"
      by (simp add: entryErrors_images_irrelevant)
    with e1 e2 show "errorDetails cnt = errorDetails cnt'" by simp
  qed
  from a b c d v r i show ?thesis by (intro conjI)
qed

text \<open>The child with the primary image \<^verbatim>\<open>m.png\<close> in an environment where every download
  fails: the run creates the variant with \<^verbatim>\<open>primary_image\<close> \<^verbatim>\<open>null\<close> and reports no
  error.\<close>

theorem image_failure_not_fatal_witness:
  "download (exEnv exImportTxt (exDoc ''B'' (Some [exChildWithImage]))) ''https://img/m.png''
     = NotOk ''Internal Server Error''
   \<and> primaryImageOf exChildWithImage = Some (''https://img/m.png'', Some ''m.png'')
   \<and> uploadImageFromUrl (exEnv exImportTxt (exDoc ''B'' (Some [exChildWithImage]))) emptyState
        ''https://img/m.png'' ''A113-1-M-primary'' (Some ''m.png'') = (None, emptyState)
   \<and> retry (\<lambda>a. Inl (Error ''create failed'') :: error + nat) 3 1000 0
       = ([1000, 2000, 4000], Inl (Error ''create failed''))
   \<and> (\<exists>res st'. createOrUpdateProductVariant (exEnv exImportTxt (exDoc ''B'' (Some [exChildWithImage])))
                    emptyState exChildWithImage 1 ''A113-1'' = (Inr res, st')
         \<and> (created res \<or> updated res)
         \<and> fieldIs ''primary_image'' JNull (snd (productVariant res))
         \<and> productVariant res \<in> set (rows st' ProductVariantT))
   \<and> fst (syncSupplier (exEnv exImportTxt (exDoc ''B'' (Some [exChildWithImage]))) emptyState exSupplier)
       = Inr (Completed \<lparr>importedParentProducts = 1, updatedParentProducts = 0,
                skippedParentProducts = 0, importedVariants = 1, updatedVariants = 0,
                skippedVariants = 0, errorDetails = []\<rparr>)
   \<and> map (\<lambda>r. (map_of (snd r) ''sku'', map_of (snd r) ''primary_image''))
         (rows (snd (syncSupplier (exEnv exImportTxt (exDoc ''B'' (Some [exChildWithImage])))
                       emptyState exSupplier)) ProductVariantT)
       = [(Some (JStr ''A113-1-M''), Some JNull)]"
proof -
  let ?e = "exEnv exImportTxt (exDoc ''B'' (Some [exChildWithImage]))"
  note t = image_failure_not_fatal[where e = ?e and u = "''https://img/m.png''"
      and m = "''Internal Server Error''" and st = emptyState and fn = "''A113-1-M-primary''"
      and ofn = "Some ''m.png''" and c = exChildWithImage and p = "''A113-1''"
      and sku = "''A113-1-M''" and img = "(''https://img/m.png'', Some ''m.png'')" and pid = 1
      and f = "\<lambda>a. Inl (Error ''create failed'') :: error + nat" and n = 3 and k = 0 and dly = 1000]
  have dl: "download ?e ''https://img/m.png'' = NotOk ''Internal Server Error''"
    by (simp add: exEnv_def)
  have pi: "primaryImageOf exChildWithImage = Some (''https://img/m.png'', Some ''m.png'')"
    by (simp add: all_eval_sym firstSome.simps)
  have sk: "extractVariantSku exChildWithImage ''A113-1'' = Some ''A113-1-M''"
    by (simp add: all_eval_sym)
  have up: "uploadImageFromUrl ?e emptyState ''https://img/m.png'' ''A113-1-M-primary'' (Some ''m.png'')
      = (None, emptyState)"
    using t dl by blast
  have rt: "retry (\<lambda>a. Inl (Error ''create failed'') :: error + nat) 3 1000 0
       = ([1000, 2000, 4000], Inl (Error ''create failed''))"
  proof -
    have "(\<exists>err. snd (retry (\<lambda>a. Inl (Error ''create failed'') :: error + nat) 3 1000 0) = Inl err)
        \<and> fst (retry (\<lambda>a. Inl (Error ''create failed'') :: error + nat) 3 1000 0)
            = map (\<lambda>i. 1000 * 2 ^ i) [0..<3]"
      using t by blast
    then show ?thesis by (simp add: numeral_3_eq_3 upt_rec)
  qed
  have v: "\<exists>res st'. createOrUpdateProductVariant ?e emptyState exChildWithImage 1 ''A113-1'' = (Inr res, st')
         \<and> (created res \<or> updated res)
         \<and> fieldIs ''primary_image'' JNull (snd (productVariant res))
         \<and> productVariant res \<in> set (rows st' ProductVariantT)"
    using t sk pi up by simp
  have run: "fst (syncSupplier ?e emptyState exSupplier)
       = Inr (Completed \<lparr>importedParentProducts = 1, updatedParentProducts = 0,
                skippedParentProducts = 0, importedVariants = 1, updatedVariants = 0,
                skippedVariants = 0, errorDetails = []\<rparr>)
   \<and> map (\<lambda>r. (map_of (snd r) ''sku'', map_of (snd r) ''primary_image''))
         (rows (snd (syncSupplier ?e emptyState exSupplier)) ProductVariantT)
       = [(Some (JStr ''A113-1-M''), Some JNull)]"
    by (simp add: all_eval_sym firstSome.simps)
  from dl pi up rt v run show ?thesis by (intro conjI) simp_all
qed

text \<open>
  Claim C10. \<^verbatim>\<open>extractVariantSku\<close> returns the first truthy of: the \<^verbatim>\<open>Sku\<close> of a language
  of \<^verbatim>\<open>ProductDetails\<close>, the root \<^verbatim>\<open>Sku\<close>, the root \<^verbatim>\<open>SupplierSku\<close>, the \<^verbatim>\<open>Sku\<close> of
  \<^verbatim>\<open>NonLanguageDependedProductDetails\<close>, and the parent SKU joined with \<^verbatim>\<open>A_number\<close>. When
  none is there and both the parent SKU and the supplier colour code are non-empty, it generates
  the parent SKU, the colour code and, when non-empty, the size code, which is the size of the
  English configuration fields without its non-alphanumeric characters. It returns \<^verbatim>\<open>null\<close>
  exactly when there is no explicit SKU and the parent SKU is empty or no supplier colour code is
  found. Then \<^verbatim>\<open>createOrUpdateProductVariant\<close> throws
  \<^verbatim>\<open>No valid product variant SKU found\<close>, and a product with such a primary variant is
  entered in the error list of the run with that message.
\<close>

theorem extractVariantSku_precedence:
  "(truthy (firstLangSku c) \<longrightarrow> extractVariantSku c parentSku = firstLangSku c)
   \<and> (\<not> truthy (firstLangSku c) \<and> truthy (Sku c) \<longrightarrow> extractVariantSku c parentSku = Sku c)
   \<and> (\<not> truthy (firstLangSku c) \<and> \<not> truthy (Sku c) \<and> truthy (SupplierSku c) \<longrightarrow>
        extractVariantSku c parentSku = SupplierSku c)
   \<and> (\<not> truthy (firstLangSku c) \<and> \<not> truthy (Sku c) \<and> \<not> truthy (SupplierSku c)
        \<and> truthy (nonLangSku c) \<longrightarrow> extractVariantSku c parentSku = nonLangSku c)
   \<and> (\<not> truthy (firstLangSku c) \<and> \<not> truthy (Sku c) \<and> \<not> truthy (SupplierSku c)
        \<and> \<not> truthy (nonLangSku c) \<and> truthy (A_number c) \<longrightarrow>
        extractVariantSku c parentSku = Some (parentSku @ ''-'' @ orEmpty (A_number c)))
   \<and> (\<not> truthy (firstLangSku c) \<and> \<not> truthy (Sku c) \<and> \<not> truthy (SupplierSku c)
        \<and> \<not> truthy (nonLangSku c) \<and> \<not> truthy (A_number c) \<longrightarrow>
        extractVariantSku c parentSku =
          (if parentSku \<noteq> [] \<and> truthy (supplierColorCodeOf c)
           then Some (parentSku @ ''-'' @ orEmpty (supplierColorCodeOf c)
                        @ (if sizeCodeOf c \<noteq> [] then ''-'' @ sizeCodeOf c else []))
           else None))
   \<and> sizeCodeOf c
        = filter isAlnum (orEmpty (snd (parseConfigurationFields (langConfigFields c ''en'') ''en'')))
   \<and> (extractVariantSku c parentSku = None \<longleftrightarrow>
        \<not> truthy (firstLangSku c) \<and> \<not> truthy (Sku c) \<and> \<not> truthy (SupplierSku c)
        \<and> \<not> truthy (nonLangSku c) \<and> \<not> truthy (A_number c)
        \<and> (parentSku = [] \<or> \<not> truthy (supplierColorCodeOf c)))
   \<and> (extractVariantSku c parentSku = None \<longrightarrow>
        createOrUpdateProductVariant e st c pid parentSku
          = (Inl (Error ''No valid product variant SKU found''), st))
   \<and> (documents e (url entry) = Ok d \<and> extractProductCode d (Some (url entry)) \<noteq> None
        \<and> ChildProducts d = Some cs \<and> g \<in> set (variantsByColorCode cs (fileNameCode (url entry)))
        \<and> extractVariantSku (hd (snd g)) (fileNameCode (url entry)) = None \<longrightarrow>
        errorDetails (snd (processProduct e supp ex (st, cnt) entry))
          = errorDetails cnt
            @ [(if fileNameCode (url entry) \<noteq> [] then fileNameCode (url entry) else ''unknown'',
                url entry, ''No valid product variant SKU found'')])"
proof -
  have t: "truthy v \<Longrightarrow> v \<noteq> None" for v by (cases v) (auto simp: truthy_def)
  have sz: "sizeCodeOf c
        = filter isAlnum (orEmpty (snd (parseConfigurationFields (langConfigFields c ''en'') ''en'')))"
    by (cases "langConfigFields c ''en''")
      (auto simp: sizeCodeOf_def parseConfigurationFields_def orEmpty_def orElse_def split: option.splits)
  have pre: "(truthy (firstLangSku c) \<longrightarrow> extractVariantSku c parentSku = firstLangSku c)
   \<and> (\<not> truthy (firstLangSku c) \<and> truthy (Sku c) \<longrightarrow> extractVariantSku c parentSku = Sku c)
   \<and> (\<not> truthy (firstLangSku c) \<and> \<not> truthy (Sku c) \<and> truthy (SupplierSku c) \<longrightarrow>
        extractVariantSku c parentSku = SupplierSku c)
   \<and> (\<not> truthy (firstLangSku c) \<and> \<not> truthy (Sku c) \<and> \<not> truthy (SupplierSku c)
        \<and> truthy (nonLangSku c) \<longrightarrow> extractVariantSku c parentSku = nonLangSku c)
   \<and> (\<not> truthy (firstLangSku c) \<and> \<not> truthy (Sku c) \<and> \<not> truthy (SupplierSku c)
        \<and> \<not> truthy (nonLangSku c) \<and> truthy (A_number c) \<longrightarrow>
        extractVariantSku c parentSku = Some (parentSku @ ''-'' @ orEmpty (A_number c)))"
    using t[of "firstLangSku c"] t[of "Sku c"] t[of "SupplierSku c"] t[of "nonLangSku c"]
    by (auto simp: extractVariantSku_def explicitSku_def)
  have gen: "\<not> truthy (firstLangSku c) \<and> \<not> truthy (Sku c) \<and> \<not> truthy (SupplierSku c)
        \<and> \<not> truthy (nonLangSku c) \<and> \<not> truthy (A_number c) \<longrightarrow>
        extractVariantSku c parentSku =
          (if parentSku \<noteq> [] \<and> truthy (supplierColorCodeOf c)
           then Some (parentSku @ ''-'' @ orEmpty (supplierColorCodeOf c)
                        @ (if sizeCodeOf c \<noteq> [] then ''-'' @ sizeCodeOf c else []))
           else None)"
    by (simp add: extractVariantSku_def explicitSku_def Let_def)
  have none: "extractVariantSku c parentSku = None \<longleftrightarrow>
        \<not> truthy (firstLangSku c) \<and> \<not> truthy (Sku c) \<and> \<not> truthy (SupplierSku c)
        \<and> \<not> truthy (nonLangSku c) \<and> \<not> truthy (A_number c)
        \<and> (parentSku = [] \<or> \<not> truthy (supplierColorCodeOf c))"
    using pre gen t[of "firstLangSku c"] t[of "Sku c"] t[of "SupplierSku c"] t[of "nonLangSku c"]
    by (cases "truthy (firstLangSku c)"; cases "truthy (Sku c)"; cases "truthy (SupplierSku c)";
        cases "truthy (nonLangSku c)"; cases "truthy (A_number c)") auto
  have err: "extractVariantSku c parentSku = None \<longrightarrow>
        createOrUpdateProductVariant e st c pid parentSku
          = (Inl (Error ''No valid product variant SKU found''), st)"
    using variant_error by blast
  have run: "documents e (url entry) = Ok d \<and> extractProductCode d (Some (url entry)) \<noteq> None
        \<and> ChildProducts d = Some cs \<and> g \<in> set (variantsByColorCode cs (fileNameCode (url entry)))
        \<and> extractVariantSku (hd (snd g)) (fileNameCode (url entry)) = None \<longrightarrow>
        errorDetails (snd (processProduct e supp ex (st, cnt) entry))
          = errorDetails cnt
            @ [(if fileNameCode (url entry) \<noteq> [] then fileNameCode (url entry) else ''unknown'',
                url entry, ''No valid product variant SKU found'')]"
  proof (intro impI, elim conjE)
    assume a: "documents e (url entry) = Ok d" "extractProductCode d (Some (url entry)) \<noteq> None"
      "ChildProducts d = Some cs" "g \<in> set (variantsByColorCode cs (fileNameCode (url entry)))"
      "extractVariantSku (hd (snd g)) (fileNameCode (url entry)) = None"
    from a(4,5) have "list_ex (\<lambda>g. extractVariantSku (hd (snd g)) (fileNameCode (url entry)) = None)
        (variantsByColorCode cs (fileNameCode (url entry)))"
      by (auto simp: list_ex_iff)
    with a(1,2,3) have "entryErrors e entry
       = [(if fileNameCode (url entry) \<noteq> [] then fileNameCode (url entry) else ''unknown'',
           url entry, ''No valid product variant SKU found'')]"
      by (auto simp: entryErrors_def Let_def)
    then show "errorDetails (snd (processProduct e supp ex (st, cnt) entry))
          = errorDetails cnt
            @ [(if fileNameCode (url entry) \<noteq> [] then fileNameCode (url entry) else ''unknown'',
                url entry, ''No valid product variant SKU found'')]"
      by (simp add: processProduct_errors)
  qed
  from pre gen sz none err run show ?thesis by (intro conjI) blast+
qed

text \<open>A child with a root SKU, one without SKU of colour 990 and size \<^verbatim>\<open>M/L\<close>, one with an
  \<^verbatim>\<open>A_number\<close>, and one that states nothing, alone in its document.\<close>

theorem extractVariantSku_precedence_witness:
  "extractVariantSku (exChild ''A113-1-M'' ''990'' ''M'') ''A113-1'' = Some ''A113-1-M''
   \<and> extractVariantSku (exChild [] ''990'' ''M/L'') ''A113-1'' = Some ''A113-1-990-ML''
   \<and> extractVariantSku ((exChild [] ''990'' ''M'')\<lparr>A_number := Some ''7''\<rparr>) ''A113-1''
       = Some ''A113-1-7''
   \<and> extractVariantSku exBareChild ''A113-1'' = None
   \<and> createOrUpdateProductVariant (exEnv exImportTxt (exDoc ''B'' (Some [exBareChild]))) emptyState
         exBareChild 1 ''A113-1''
       = (Inl (Error ''No valid product variant SKU found''), emptyState)
   \<and> variantsByColorCode [exBareChild] ''A113-1'' = [(''unknown'', [exBareChild])]
   \<and> errorDetails (snd (processProduct (exEnv exImportTxt (exDoc ''B'' (Some [exBareChild])))
                          exSupplier [] (emptyState, zeroCounters) \<lparr>url = exUrl, hash = ''H1''\<rparr>))
       = [(''A113-1'', exUrl, ''No valid product variant SKU found'')]"
proof -
  let ?c1 = "exChild ''A113-1-M'' ''990'' ''M''"
  let ?c2 = "exChild [] ''990'' ''M/L''"
  let ?c3 = "(exChild [] ''990'' ''M'')\<lparr>A_number := Some ''7''\<rparr>"
  have f1: "\<not> truthy (firstLangSku ?c1)" "truthy (Sku ?c1)" "Sku ?c1 = Some ''A113-1-M''"
    by (simp_all add: all_eval_sym)
  have f2: "\<not> truthy (firstLangSku ?c2)" "\<not> truthy (Sku ?c2)" "\<not> truthy (SupplierSku ?c2)"
    "\<not> truthy (nonLangSku ?c2)" "\<not> truthy (A_number ?c2)" "truthy (supplierColorCodeOf ?c2)"
    "orEmpty (supplierColorCodeOf ?c2) = ''990''" "sizeCodeOf ?c2 = ''ML''"
    by (simp_all add: all_eval_sym)
  have f3: "\<not> truthy (firstLangSku ?c3)" "\<not> truthy (Sku ?c3)" "\<not> truthy (SupplierSku ?c3)"
    "\<not> truthy (nonLangSku ?c3)" "truthy (A_number ?c3)" "orEmpty (A_number ?c3) = ''7''"
    by (simp_all add: all_eval_sym)
  have f4: "\<not> truthy (firstLangSku exBareChild)" "\<not> truthy (Sku exBareChild)"
    "\<not> truthy (SupplierSku exBareChild)" "\<not> truthy (nonLangSku exBareChild)"
    "\<not> truthy (A_number exBareChild)" "\<not> truthy (supplierColorCodeOf exBareChild)"
    by (simp_all add: all_eval_sym)
  have g: "variantsByColorCode [exBareChild] ''A113-1'' = [(''unknown'', [exBareChild])]"
    by (simp add: all_eval_sym)
  have u: "fileNameCode exUrl = ''A113-1''" by (simp add: all_eval_sym)
  have d: "extractProductCode (exDoc ''B'' (Some [exBareChild])) (Some exUrl) \<noteq> None"
    by (simp add: extractProductCode_def exDoc_def truthy_def)
  have ee: "documents (exEnv exImportTxt (exDoc ''B'' (Some [exBareChild]))) exUrl
              = Ok (exDoc ''B'' (Some [exBareChild]))"
    by (simp add: exEnv_def)
  have cp: "ChildProducts (exDoc ''B'' (Some [exBareChild])) = Some [exBareChild]"
    by (simp add: exDoc_def)
  note t1 = extractVariantSku_precedence[where c = ?c1 and parentSku = "''A113-1''"]
  note t2 = extractVariantSku_precedence[where c = ?c2 and parentSku = "''A113-1''"]
  note t3 = extractVariantSku_precedence[where c = ?c3 and parentSku = "''A113-1''"]
  note t4 = extractVariantSku_precedence[where c = exBareChild and parentSku = "''A113-1''"
      and e = "exEnv exImportTxt (exDoc ''B'' (Some [exBareChild]))" and st = emptyState and pid = 1
      and entry = "\<lparr>url = exUrl, hash = ''H1''\<rparr>" and d = "exDoc ''B'' (Some [exBareChild])"
      and cs = "[exBareChild]" and g = "(''unknown'', [exBareChild])" and supp = exSupplier
      and ex = "[]" and cnt = zeroCounters]
  have c1: "extractVariantSku ?c1 ''A113-1'' = Some ''A113-1-M''"
    using t1 f1 by simp
  have c2: "extractVariantSku ?c2 ''A113-1'' = Some ''A113-1-990-ML''"
    using t2 f2 by simp
  have c3: "extractVariantSku ?c3 ''A113-1'' = Some ''A113-1-7''"
    using t3 f3 by simp
  have a: "extractVariantSku exBareChild ''A113-1'' = None"
    using t4 f4 by blast
  have c5: "createOrUpdateProductVariant (exEnv exImportTxt (exDoc ''B'' (Some [exBareChild]))) emptyState
         exBareChild 1 ''A113-1''
       = (Inl (Error ''No valid product variant SKU found''), emptyState)"
    using t4 a by blast
  have c7: "errorDetails (snd (processProduct (exEnv exImportTxt (exDoc ''B'' (Some [exBareChild])))
                          exSupplier [] (emptyState, zeroCounters) \<lparr>url = exUrl, hash = ''H1''\<rparr>))
       = [(''A113-1'', exUrl, ''No valid product variant SKU found'')]"
    using t4 a g u d ee cp by (simp add: zeroCounters_def)
  from c1 c2 c3 a c5 g c7 show ?thesis by (intro conjI)
qed

text \<open>A child without SKU whose supplier colour code is 990, under an empty parent SKU.\<close>

theorem extractVariantSku_empty_parent:
  "explicitSku (exChild [] ''990'' ''M'') [] = None
   \<and> supplierColorCodeOf (exChild [] ''990'' ''M'') = Some ''990''
   \<and> extractVariantSku (exChild [] ''990'' ''M'') [] = None"
  by (simp add: all_eval_sym)

end
